theory Spec2Isabelle
  imports Complex_Main "HOL-Library.Sublist"
begin

section \<open>Python strings\<close>

text \<open>
  A Python \<open>str\<close> is a sequence of Unicode code points; \<open>startswith\<close>, slicing and
  \<open>len\<close> count code points. The window names handled here carry emoji, so a string is
  modelled as the list of its code points. \<open>ascii\<close> embeds an ASCII literal.
\<close>

type_synonym str = "nat list"

definition ascii :: "string \<Rightarrow> str" where
  "ascii s = map of_char s"

text \<open>\<open>str.isspace\<close> of one character: the code points Python treats as whitespace.\<close>

definition py_isspace :: "nat \<Rightarrow> bool" where
  "py_isspace c \<longleftrightarrow>
     (9 \<le> c \<and> c \<le> 13) \<or> (28 \<le> c \<and> c \<le> 32) \<or> c = 133 \<or> c = 160 \<or> c = 5760 \<or>
     (8192 \<le> c \<and> c \<le> 8202) \<or> c = 8232 \<or> c = 8233 \<or> c = 8239 \<or> c = 8287 \<or>
     c = 12288"

text \<open>\<open>s.strip()\<close>: leading and trailing whitespace removed.\<close>

definition py_strip :: "str \<Rightarrow> str" where
  "py_strip s = rev (dropWhile py_isspace (rev (dropWhile py_isspace s)))"

text \<open>\<open>s.split(sep)\<close> for a one-character separator: never the empty list.\<close>

fun py_split :: "nat \<Rightarrow> str \<Rightarrow> str list" where
  "py_split sep [] = [[]]"
| "py_split sep (c # cs) =
     (if c = sep then [] # py_split sep cs
      else (case py_split sep cs of
              [] \<Rightarrow> [[c]]
            | p # ps \<Rightarrow> (c # p) # ps))"

text \<open>\<open>sep.join(parts)\<close> for a one-character separator.\<close>

fun py_join :: "nat \<Rightarrow> str list \<Rightarrow> str" where
  "py_join sep [] = []"
| "py_join sep [p] = p"
| "py_join sep (p # q # ps) = p @ sep # py_join sep (q # ps)"

text \<open>\<open>sub in s\<close>: \<open>sub\<close> occurs in \<open>s\<close> as a contiguous run.\<close>

fun py_in :: "str \<Rightarrow> str \<Rightarrow> bool" where
  "py_in sub [] = (sub = [])"
| "py_in sub (c # cs) = (prefix sub (c # cs) \<or> py_in sub cs)"

text \<open>\<open>pane_id.replace('%', '')\<close>: every percent sign removed.\<close>

definition remove_percent :: "str \<Rightarrow> str" where
  "remove_percent s = filter (\<lambda>c. c \<noteq> 37) s"

section \<open>The environment: tmux, the script directory, the clock\<close>

text \<open>
  What tmux holds for a target: the window name and the \<open>automatic-rename\<close> option.
  A target that tmux cannot resolve has no entry.
\<close>

record pane =
  window_name :: str
  automatic_rename :: bool

text \<open>
  The JSON object \<open>save_pane_state\<close> writes. \<open>auto_rename_was_on\<close> is optional on
  reading: \<open>restore_pane_name\<close> reads it with \<open>state.get('auto_rename_was_on', True)\<close>,
  so a file without the key is a record too.
\<close>

record pane_state =
  pane_id :: str
  original_name :: str
  status :: string
  timestamp :: real
  auto_rename_was_on :: "bool option"

text \<open>
  The exceptions the scripts do not catch: they leave the function and its callers
  and end the process in \<open>main\<close>, which raises them again.
\<close>

datatype py_error = UnicodeDecodeError | RecursionError | TypeError | KeyError

text \<open>
  What \<open>json.load\<close> returns for a state file that decodes, as far as the scripts
  tell values apart:
  \<^item> \<open>Record\<close>: an object with a string under \<open>original_name\<close>;
  \<^item> \<open>FalsyJson\<close>: a value Python takes for false (\<open>null\<close>, \<open>false\<close>, zero, the
    empty string, list or object), on which \<open>if state:\<close> takes the branch of no state;
  \<^item> \<open>NonObject\<close>: any other value that is not an object, on which
    \<open>state['original_name']\<close> raises \<open>TypeError\<close>;
  \<^item> \<open>ObjectWithoutName\<close>: an object that is not empty and has no key
    \<open>original_name\<close>, on which \<open>state['original_name']\<close> raises \<open>KeyError\<close>.
\<close>

datatype json_value = Record pane_state | FalsyJson | NonObject | ObjectWithoutName

text \<open>
  The content of a state file \<open>.pane_state_<id>.json\<close> as \<open>load_pane_state\<close> meets it:
  \<^item> \<open>Decoded\<close>: JSON text;
  \<^item> \<open>Garbage\<close>: text on which \<open>json.load\<close> raises \<open>JSONDecodeError\<close>;
  \<^item> \<open>Unreadable\<close>: a file whose \<open>open\<close> or \<open>read\<close> raises \<open>IOError\<close>;
  \<^item> \<open>NotUTF8\<close>: bytes that are not text, on which reading raises
    \<open>UnicodeDecodeError\<close>;
  \<^item> \<open>TooDeep\<close>: JSON nested so deep that \<open>json.load\<close> raises \<open>RecursionError\<close>.
  \<open>write_protected\<close> says that \<open>open(state_file, 'w')\<close> raises \<open>IOError\<close> on this file.
\<close>

datatype file_content = Decoded json_value | Garbage | Unreadable | NotUTF8 | TooDeep

record state_file =
  content :: file_content
  mtime :: real
  write_protected :: bool

text \<open>One entry of \<open>.pane_tracker.json\<close>, and the file itself.\<close>

record tracked_info =
  session_name :: str
  last_activity :: real
  tracked_status :: string

datatype tracker_content =
  Tracked "(str \<times> tracked_info) list" | TrackerGarbage | TrackerUnreadable

text \<open>
  The messages handed to \<open>logger.error\<close> and \<open>logger.warning\<close>, with the pane they
  name. What the debug logger does with them is outside this development.
\<close>

datatype log_entry = LogError string "str option" | LogWarning string "str option"

text \<open>
  The world the scripts run in.
  \<^item> \<open>env_TMUX_PANE\<close>: the environment variable \<open>TMUX_PANE\<close>.
  \<^item> \<open>current_pane\<close>, \<open>current_session\<close>: what \<open>display-message -p\<close> prints for
    \<open>#{pane_id}\<close> and \<open>#{session_name}\<close>; \<open>None\<close> when tmux has no current client.
  \<^item> \<open>panes\<close>: the targets tmux resolves.
  \<^item> \<open>list_panes_output\<close>: the standard output of \<open>list-panes -a -F ...\<close>;
    \<open>None\<close> when the command exits non-zero.
  \<^item> \<open>tmux_faults\<close>: one entry per tmux invocation still to come, \<open>True\<close> when that
    invocation exits non-zero whatever the state is (the server went away, the pane
    was killed in between); an exhausted list injects no failure.
  \<^item> \<open>state_files\<close>: the state files of the script directory, by the part of the
    file name between \<open>.pane_state_\<close> and \<open>.json\<close>.
  \<^item> \<open>tracker_file\<close>: \<open>.pane_tracker.json\<close>.
  \<^item> \<open>fs_readonly\<close>: the script directory rejects changes: \<open>open(..., 'w')\<close> raises
    \<open>IOError\<close> and \<open>unlink\<close> raises \<open>OSError\<close>, on every file.
  \<^item> \<open>clock\<close>: \<open>time.time()\<close>.
  \<^item> \<open>log\<close>: the error and warning messages logged so far.
\<close>

record world =
  env_TMUX_PANE :: "str option"
  current_pane :: "str option"
  current_session :: "str option"
  panes :: "str \<rightharpoonup> pane"
  list_panes_output :: "str option"
  tmux_faults :: "bool list"
  state_files :: "str \<rightharpoonup> state_file"
  tracker_file :: "tracker_content option"
  fs_readonly :: bool
  clock :: real
  log :: "log_entry list"

definition log_error :: "string \<Rightarrow> str option \<Rightarrow> world \<Rightarrow> world" where
  "log_error msg p w = w\<lparr>log := log w @ [LogError msg p]\<rparr>"

definition log_warning :: "string \<Rightarrow> str option \<Rightarrow> world \<Rightarrow> world" where
  "log_warning msg p w = w\<lparr>log := log w @ [LogWarning msg p]\<rparr>"

subsection \<open>\<open>subprocess.run(['tmux', ...], check=True)\<close>\<close>

datatype tmux_cmd =
    DisplayPaneId
  | DisplaySessionName
  | DisplayWindowName str
  | ShowAutomaticRename str
  | SetAutomaticRename str bool
  | RenameWindow str str
  | ListPanes

text \<open>
  What a tmux command does when it is not hit by an injected fault: its standard
  output and the new state, or \<open>None\<close> for a non-zero exit.
\<close>

definition tmux_exec :: "tmux_cmd \<Rightarrow> world \<Rightarrow> (str \<times> world) option" where
  "tmux_exec cmd w =
     (case cmd of
        DisplayPaneId \<Rightarrow> map_option (\<lambda>p. (p @ [10], w)) (current_pane w)
      | DisplaySessionName \<Rightarrow> map_option (\<lambda>s. (s @ [10], w)) (current_session w)
      | DisplayWindowName t \<Rightarrow> map_option (\<lambda>p. (window_name p @ [10], w)) (panes w t)
      | ShowAutomaticRename t \<Rightarrow>
          map_option
            (\<lambda>p. (ascii ''automatic-rename '' @
                    (if automatic_rename p then ascii ''on'' else ascii ''off'') @ [10], w))
            (panes w t)
      | SetAutomaticRename t b \<Rightarrow>
          map_option
            (\<lambda>p. ([], w\<lparr>panes := (panes w)(t \<mapsto> p\<lparr>automatic_rename := b\<rparr>)\<rparr>))
            (panes w t)
      | RenameWindow t n \<Rightarrow>
          map_option
            (\<lambda>p. ([], w\<lparr>panes := (panes w)(t \<mapsto> p\<lparr>window_name := n\<rparr>)\<rparr>))
            (panes w t)
      | ListPanes \<Rightarrow> map_option (\<lambda>out. (out, w)) (list_panes_output w))"

text \<open>
  One invocation: it takes the next entry of \<open>tmux_faults\<close>. \<open>None\<close> is
  \<open>CalledProcessError\<close>; \<open>Some out\<close> is the captured standard output.
\<close>

definition run_tmux :: "tmux_cmd \<Rightarrow> world \<Rightarrow> str option \<times> world" where
  "run_tmux cmd w =
     (let fault = (case tmux_faults w of [] \<Rightarrow> False | f # _ \<Rightarrow> f);
          w1 = w\<lparr>tmux_faults := tl (tmux_faults w)\<rparr>
      in if fault then (None, w1)
         else (case tmux_exec cmd w1 of
                 None \<Rightarrow> (None, w1)
               | Some (out, w2) \<Rightarrow> (Some out, w2)))"

section \<open>\<open>claude_tmux_hooks.py\<close>\<close>

text \<open>Each function returns its Python result together with the world it leaves.\<close>

definition get_current_tmux_pane :: "world \<Rightarrow> str option \<times> world" where
  "get_current_tmux_pane w =
     (case run_tmux DisplayPaneId w of
        (Some out, w1) \<Rightarrow> (Some (py_strip out), w1)
      | (None, w1) \<Rightarrow> (None, log_error ''Failed to get current pane ID'' None w1))"

definition get_current_tmux_session :: "world \<Rightarrow> str option \<times> world" where
  "get_current_tmux_session w =
     (case run_tmux DisplaySessionName w of
        (Some out, w1) \<Rightarrow> (Some (py_strip out), w1)
      | (None, w1) \<Rightarrow> (None, log_error ''Failed to get current session'' None w1))"

definition get_pane_name :: "str \<Rightarrow> world \<Rightarrow> str option \<times> world" where
  "get_pane_name p w =
     (case run_tmux (DisplayWindowName p) w of
        (Some out, w1) \<Rightarrow> (Some (py_strip out), w1)
      | (None, w1) \<Rightarrow> (None, log_error ''Failed to get window name'' (Some p) w1))"

definition get_window_auto_rename_status :: "str \<Rightarrow> world \<Rightarrow> bool \<times> world" where
  "get_window_auto_rename_status p w =
     (case run_tmux (ShowAutomaticRename p) w of
        (Some out, w1) \<Rightarrow> (py_in (ascii ''on'') (py_strip out), w1)
      | (None, w1) \<Rightarrow> (False, w1))"

definition set_window_auto_rename :: "str \<Rightarrow> bool \<Rightarrow> world \<Rightarrow> bool \<times> world" where
  "set_window_auto_rename p enabled w =
     (case run_tmux (SetAutomaticRename p enabled) w of
        (Some out, w1) \<Rightarrow> (True, w1)
      | (None, w1) \<Rightarrow> (False, log_error ''Failed to set automatic-rename'' (Some p) w1))"

text \<open>
  \<open>set_pane_name\<close> first disables automatic rename, ignoring the outcome, then renames
  the window.
\<close>

definition set_pane_name :: "str \<Rightarrow> str \<Rightarrow> world \<Rightarrow> bool \<times> world" where
  "set_pane_name p name w =
     (case set_window_auto_rename p False w of
        (_, w1) \<Rightarrow>
          (case run_tmux (RenameWindow p name) w1 of
             (Some out, w2) \<Rightarrow> (True, w2)
           | (None, w2) \<Rightarrow> (False, log_error ''Failed to set window name'' (Some p) w2)))"

definition state_file_key :: "str \<Rightarrow> str" where
  "state_file_key p = remove_percent p"

text \<open>
  \<open>open(state_file, 'w')\<close> raises \<open>IOError\<close>: the directory rejects changes, or the
  file is there and is write-protected.
\<close>

definition state_write_fails :: "str \<Rightarrow> world \<Rightarrow> bool" where
  "state_write_fails p w \<longleftrightarrow>
     fs_readonly w \<or>
     (case state_files w (state_file_key p) of None \<Rightarrow> False | Some f \<Rightarrow> write_protected f)"

text \<open>
  \<open>save_pane_state\<close> reads the automatic-rename option as it is when called, then
  writes the record; \<open>IOError\<close> is logged and swallowed.
\<close>

definition save_pane_state :: "str \<Rightarrow> str \<Rightarrow> string \<Rightarrow> world \<Rightarrow> world" where
  "save_pane_state p orig st w =
     (case get_window_auto_rename_status p w of
        (was_on, w1) \<Rightarrow>
          (let state = \<lparr>pane_id = p, original_name = orig, status = st,
                        timestamp = clock w1, auto_rename_was_on = Some was_on\<rparr>
           in if state_write_fails p w1
              then log_error ''Failed to save state for pane'' (Some p) w1
              else w1\<lparr>state_files := (state_files w1)
                     (state_file_key p \<mapsto>
                        \<lparr>content = Decoded (Record state), mtime = clock w1,
                         write_protected = False\<rparr>)\<rparr>))"

text \<open>
  \<open>load_pane_state\<close>: what \<open>json.load\<close> returns, or \<open>None\<close> when the file is
  missing, or when it raises \<open>JSONDecodeError\<close> or \<open>IOError\<close>, which are caught and
  logged. \<open>UnicodeDecodeError\<close> and \<open>RecursionError\<close> are not caught: they leave the
  function (\<open>Inl\<close>).
\<close>

definition load_pane_state ::
  "str \<Rightarrow> world \<Rightarrow> (py_error + json_value option) \<times> world" where
  "load_pane_state p w =
     (case state_files w (state_file_key p) of
        None \<Rightarrow> (Inr None, w)
      | Some f \<Rightarrow>
          (case content f of
             Decoded state \<Rightarrow> (Inr (Some state), w)
           | Garbage \<Rightarrow> (Inr None, log_error ''Failed to load state for pane'' (Some p) w)
           | Unreadable \<Rightarrow> (Inr None, log_error ''Failed to load state for pane'' (Some p) w)
           | NotUTF8 \<Rightarrow> (Inl UnicodeDecodeError, w)
           | TooDeep \<Rightarrow> (Inl RecursionError, w)))"

definition cleanup_pane_state :: "str \<Rightarrow> world \<Rightarrow> world" where
  "cleanup_pane_state p w =
     (case state_files w (state_file_key p) of
        None \<Rightarrow> w
      | Some f \<Rightarrow>
          if fs_readonly w then log_error ''Failed to cleanup state for pane'' (Some p) w
          else w\<lparr>state_files := (state_files w)(state_file_key p := None)\<rparr>)"

text \<open>
  \<open>get_claude_pane_id\<close>: \<open>TMUX_PANE\<close> when set and not empty, else the current pane.
\<close>

definition get_claude_pane_id :: "world \<Rightarrow> str option \<times> world" where
  "get_claude_pane_id w =
     (case env_TMUX_PANE w of
        Some (c # cs) \<Rightarrow> (Some (c # cs), w)
      | _ \<Rightarrow>
          (case get_current_tmux_pane w of
             (Some (c # cs), w1) \<Rightarrow> (Some (c # cs), w1)
           | (_, w1) \<Rightarrow> (None, log_error ''Could not determine Claude pane ID'' None w1)))"

text \<open>The emoji of the overlays, and the list the hooks strip against, in its order.\<close>

definition emoji_stop :: str where "emoji_stop = [9989]"
definition emoji_notification :: str where "emoji_notification = [128226]"
definition emoji_permission :: str where "emoji_permission = [10067]"
definition emoji_refresh :: str where "emoji_refresh = [128260]"

definition known_emoji :: "str list" where
  "known_emoji = [emoji_stop, emoji_notification, emoji_permission, emoji_refresh]"

text \<open>
  The loop \<open>for emoji in [...]: if original_name.startswith(emoji + ' '): ...; break\<close>:
  the first emoji of the list that prefixes the name, with its space, is cut off.
\<close>

fun strip_emoji_prefix :: "str list \<Rightarrow> str \<Rightarrow> str" where
  "strip_emoji_prefix [] name = name"
| "strip_emoji_prefix (emoji # rest) name =
     (if prefix (emoji @ [32]) name then drop (length (emoji @ [32])) name
      else strip_emoji_prefix rest name)"

text \<open>
  The branch on which a hook returns; the source marks each with its own error
  message and \<open>log_hook_execution\<close> line.
\<close>

datatype hook_result =
    NoPaneId
  | NoCurrentName
  | SetNameFailed
  | HookCompleted
  | NotWaiting
  | Raised py_error

text \<open>
  The name a hook remembers:
  \<open>if state: original_name = state['original_name']\<close>, else the current name without
  its emoji prefix. The subscript raises on a state that is not a record.
\<close>

definition name_to_remember :: "json_value option \<Rightarrow> str \<Rightarrow> py_error + str" where
  "name_to_remember state current_name =
     (case state of
        Some (Record s) \<Rightarrow> Inr (original_name s)
      | Some NonObject \<Rightarrow> Inl TypeError
      | Some ObjectWithoutName \<Rightarrow> Inl KeyError
      | Some FalsyJson \<Rightarrow> Inr (strip_emoji_prefix known_emoji current_name)
      | None \<Rightarrow> Inr (strip_emoji_prefix known_emoji current_name))"

text \<open>
  \<open>handle_stop_hook\<close>, \<open>handle_notification_hook\<close> and the part of
  \<open>handle_pretooluse_hook\<close> after the permission test have the same body but for the
  emoji and the status string; the body is \<open>handle_hook\<close>.
\<close>

definition handle_hook :: "str \<Rightarrow> string \<Rightarrow> world \<Rightarrow> hook_result \<times> world" where
  "handle_hook emoji st w =
     (case get_claude_pane_id w of
        (None, w1) \<Rightarrow> (NoPaneId, log_error ''Could not get Claude pane ID'' None w1)
      | (Some p, w1) \<Rightarrow>
          (case get_pane_name p w1 of
             (None, w2) \<Rightarrow>
               (NoCurrentName, log_error ''Could not get current name for pane'' (Some p) w2)
           | (Some [], w2) \<Rightarrow>
               (NoCurrentName, log_error ''Could not get current name for pane'' (Some p) w2)
           | (Some current_name, w2) \<Rightarrow>
               (case load_pane_state p w2 of
                  (Inl e, w3) \<Rightarrow> (Raised e, w3)
                | (Inr state, w3) \<Rightarrow>
                    (case name_to_remember state current_name of
                       Inl e \<Rightarrow> (Raised e, w3)
                     | Inr orig \<Rightarrow>
                         (let new_name = emoji @ [32] @ orig
                          in case set_pane_name p new_name w3 of
                               (True, w4) \<Rightarrow>
                                 (case get_current_tmux_session
                                         (save_pane_state p orig st w4) of
                                    (_, w5) \<Rightarrow> (HookCompleted, w5))
                             | (False, w4) \<Rightarrow>
                                 (SetNameFailed,
                                  log_error ''Failed to set pane name'' (Some p) w4))))))"

definition handle_stop_hook :: "world \<Rightarrow> hook_result \<times> world" where
  "handle_stop_hook = handle_hook emoji_stop ''stop''"

definition handle_notification_hook :: "world \<Rightarrow> hook_result \<times> world" where
  "handle_notification_hook = handle_hook emoji_notification ''notification''"

text \<open>
  What \<open>is_waiting_for_permission\<close> finds on standard input: nothing to read, a JSON
  object with its \<open>tool_name\<close> (\<open>unknown\<close> when it has none), or text that does not
  decode. Without a decoded payload the function answers \<open>True\<close>.
\<close>

datatype hook_stdin = NoPayload | ToolPayload string | BadPayload

definition is_waiting_for_permission :: "hook_stdin \<Rightarrow> bool" where
  "is_waiting_for_permission i =
     (case i of
        ToolPayload tool_name \<Rightarrow> tool_name \<in> set [''Bash'', ''Write'', ''Edit'', ''MultiEdit'']
      | _ \<Rightarrow> True)"

definition handle_pretooluse_hook :: "hook_stdin \<Rightarrow> world \<Rightarrow> hook_result \<times> world" where
  "handle_pretooluse_hook i w =
     (if \<not> is_waiting_for_permission i then (NotWaiting, w)
      else handle_hook emoji_permission ''permission'' w)"

text \<open>
  \<open>restore_pane_name\<close>: with a record, rename the window to the saved name; when that
  succeeds set automatic rename to the saved value (\<open>True\<close> for a record without the
  key), ignoring the outcome, remove the state file and return \<open>True\<close>. Without a
  state, or when the rename fails, return \<open>False\<close>. An exception of
  \<open>load_pane_state\<close>, or of \<open>state['original_name']\<close> on a state that is not a
  record, leaves the function.
\<close>

definition restore_pane_name :: "str \<Rightarrow> world \<Rightarrow> (py_error + bool) \<times> world" where
  "restore_pane_name p w =
     (case load_pane_state p w of
        (Inl e, w1) \<Rightarrow> (Inl e, w1)
      | (Inr (Some (Record state)), w1) \<Rightarrow>
          (let was_on = (case auto_rename_was_on state of None \<Rightarrow> True | Some b \<Rightarrow> b)
           in case run_tmux (RenameWindow p (original_name state)) w1 of
                (Some out, w2) \<Rightarrow>
                  (case set_window_auto_rename p was_on w2 of
                     (_, w3) \<Rightarrow> (Inr True, cleanup_pane_state p w3))
              | (None, w2) \<Rightarrow>
                  (Inr False, log_error ''Failed to restore pane name'' (Some p) w2))
      | (Inr (Some NonObject), w1) \<Rightarrow> (Inl TypeError, w1)
      | (Inr (Some ObjectWithoutName), w1) \<Rightarrow> (Inl KeyError, w1)
      | (Inr (Some FalsyJson), w1) \<Rightarrow>
          (Inr False, log_warning ''No state found for pane'' (Some p) w1)
      | (Inr None, w1) \<Rightarrow>
          (Inr False, log_warning ''No state found for pane'' (Some p) w1))"

text \<open>
  \<open>clear_emoji_on_enter\<close>: restore the current pane when it has a state; the result
  is the exception that left the function, if any.
\<close>

definition clear_emoji_on_enter :: "world \<Rightarrow> py_error option \<times> world" where
  "clear_emoji_on_enter w =
     (case get_current_tmux_pane w of
        (Some (c # cs), w1) \<Rightarrow>
          (case load_pane_state (c # cs) w1 of
             (Inl e, w2) \<Rightarrow> (Some e, w2)
           | (Inr None, w2) \<Rightarrow> (None, w2)
           | (Inr (Some FalsyJson), w2) \<Rightarrow> (None, w2)
           | (Inr (Some state), w2) \<Rightarrow>
               (case restore_pane_name (c # cs) w2 of
                  (Inl e, w3) \<Rightarrow> (Some e, w3)
                | (Inr ok, w3) \<Rightarrow> (None, w3)))
      | (_, w1) \<Rightarrow> (None, w1))"

section \<open>\<open>tmux_integration.py\<close>\<close>

definition run_tmux_command :: "tmux_cmd \<Rightarrow> world \<Rightarrow> str option \<times> world" where
  "run_tmux_command cmd w =
     (case run_tmux cmd w of
        (Some out, w1) \<Rightarrow> (Some (py_strip out), w1)
      | (None, w1) \<Rightarrow> (None, log_error ''Tmux command failed'' None w1))"

text \<open>The dictionary \<open>get_all_panes\<close> builds for one line of the listing.\<close>

record pane_info =
  session_window_pane :: str
  info_pane_id :: str
  title :: str
  pid :: str

text \<open>
  The loop over the lines of the listing: a line that is blank or has fewer than
  five fields between colons is skipped; \<open>pane_id\<close> is \<open>parts[1]\<close>, the title is
  \<open>parts[2:-1]\<close> joined by colons, the pid is \<open>parts[-1]\<close>.
\<close>

fun parse_pane_lines :: "str list \<Rightarrow> pane_info list" where
  "parse_pane_lines [] = []"
| "parse_pane_lines (line # lines) =
     (if py_strip line \<noteq> [] then
        (let parts = py_split 58 line
         in if length parts \<ge> 5 then
              \<lparr>session_window_pane = parts ! 0, info_pane_id = parts ! 1,
               title = py_join 58 (butlast (drop 2 parts)), pid = last parts\<rparr>
              # parse_pane_lines lines
            else parse_pane_lines lines)
      else parse_pane_lines lines)"

definition get_all_panes :: "world \<Rightarrow> pane_info list \<times> world" where
  "get_all_panes w =
     (case run_tmux_command ListPanes w of
        (Some (c # cs), w1) \<Rightarrow> (parse_pane_lines (py_split 10 (c # cs)), w1)
      | (_, w1) \<Rightarrow> ([], w1))"

section \<open>\<open>pane_tracker.py\<close>\<close>

text \<open>
  The tracked panes are a dictionary from pane id to its entry, here the list of its
  items. A missing, undecodable or unreadable file loads as the empty dictionary.
\<close>

definition load_tracked_panes :: "world \<Rightarrow> (str \<times> tracked_info) list" where
  "load_tracked_panes w =
     (case tracker_file w of
        Some (Tracked t) \<Rightarrow> t
      | _ \<Rightarrow> [])"

definition save_tracked_panes :: "(str \<times> tracked_info) list \<Rightarrow> world \<Rightarrow> world" where
  "save_tracked_panes t w =
     (if fs_readonly w then w else w\<lparr>tracker_file := Some (Tracked t)\<rparr>)"

text \<open>\<open>del tracked_panes[pane_id]\<close>.\<close>

definition dict_del :: "str \<Rightarrow> (str \<times> 'v) list \<Rightarrow> (str \<times> 'v) list" where
  "dict_del k t = filter (\<lambda>kv. fst kv \<noteq> k) t"

text \<open>
  \<open>if state_file.exists(): state_file.unlink()\<close> inside \<open>try ... except Exception: pass\<close>.
\<close>

definition unlink_state_file :: "str \<Rightarrow> world \<Rightarrow> world" where
  "unlink_state_file k w =
     (case state_files w k of
        None \<Rightarrow> w
      | Some f \<Rightarrow> if fs_readonly w then w else w\<lparr>state_files := (state_files w)(k := None)\<rparr>)"

text \<open>The loop over \<open>dead_panes\<close> in \<open>cleanup_dead_panes\<close>.\<close>

fun remove_dead_panes ::
  "str list \<Rightarrow> (str \<times> tracked_info) list \<Rightarrow> world \<Rightarrow> (str \<times> tracked_info) list \<times> world"
where
  "remove_dead_panes [] t w = (t, w)"
| "remove_dead_panes (p # ps) t w =
     remove_dead_panes ps (dict_del p t) (unlink_state_file (state_file_key p) w)"

definition cleanup_dead_panes :: "world \<Rightarrow> world" where
  "cleanup_dead_panes w =
     (let tracked_panes = load_tracked_panes w
      in case get_all_panes w of
           (all_panes, w1) \<Rightarrow>
             (let current_panes = map info_pane_id all_panes;
                  dead_panes = filter (\<lambda>p. p \<notin> set current_panes) (map fst tracked_panes)
              in if dead_panes = [] then w1
                 else (case remove_dead_panes dead_panes tracked_panes w1 of
                         (t, w2) \<Rightarrow> save_tracked_panes t w2)))"

text \<open>
  \<open>cleanup_old_states\<close> visits every state file of the directory; each visit looks at
  its own file only, so the loop is the pointwise map below. A file older than
  \<open>max_age\<close> is unlinked; an exception on one file is passed over.
\<close>

definition max_age :: real where
  "max_age = 3600"

definition cleanup_old_states :: "world \<Rightarrow> world" where
  "cleanup_old_states w =
     (let current_time = clock w
      in w\<lparr>state_files :=
             (\<lambda>k. case state_files w k of
                     None \<Rightarrow> None
                   | Some f \<Rightarrow>
                       if current_time - mtime f > max_age \<and> \<not> fs_readonly w then None
                       else Some f)\<rparr>)"

text \<open>
  One pass of the body of \<open>_monitor_loop\<close> before its \<open>time.sleep(30)\<close>, and the loop
  for the number of passes made while \<open>self.running\<close> holds.
\<close>

definition monitor_pass :: "world \<Rightarrow> world" where
  "monitor_pass w = cleanup_old_states (cleanup_dead_panes w)"

fun monitor_loop :: "nat \<Rightarrow> world \<Rightarrow> world" where
  "monitor_loop 0 w = w"
| "monitor_loop (Suc n) w =
     monitor_loop n ((monitor_pass w)\<lparr>clock := clock (monitor_pass w) + 30\<rparr>)"

section \<open>Observations and sample worlds\<close>

definition displayed_name :: "world \<Rightarrow> str \<Rightarrow> str option" where
  "displayed_name w p = map_option window_name (panes w p)"

definition auto_naming :: "world \<Rightarrow> str \<Rightarrow> bool option" where
  "auto_naming w p = map_option automatic_rename (panes w p)"

text \<open>The record \<open>load_pane_state\<close> returns for a pane, when it returns one.\<close>

definition stored_record :: "world \<Rightarrow> str \<Rightarrow> pane_state option" where
  "stored_record w p =
     (case fst (load_pane_state p w) of
        Inr (Some (Record s)) \<Rightarrow> Some s
      | _ \<Rightarrow> None)"

text \<open>
  A caller of \<open>load_pane_state\<close> finds no state for the pane: the function returns
  \<open>None\<close>, or a value on which \<open>if state:\<close> is false.
\<close>

definition no_record :: "world \<Rightarrow> str \<Rightarrow> bool" where
  "no_record w p \<longleftrightarrow>
     fst (load_pane_state p w) = Inr None \<or> fst (load_pane_state p w) = Inr (Some FalsyJson)"

text \<open>A name starts with one of the known emoji and a space.\<close>

definition has_marker :: "str \<Rightarrow> bool" where
  "has_marker name = list_ex (\<lambda>emoji. prefix (emoji @ [32]) name) known_emoji"

text \<open>
  A world with the single pane \<open>%1\<close>, the pane the hooks run in, no state file and no
  tracker file, at time 1000.
\<close>

definition pane1 :: str where
  "pane1 = ascii ''%1''"

definition one_pane_world :: "str \<Rightarrow> bool \<Rightarrow> bool list \<Rightarrow> world" where
  "one_pane_world name auto faults =
     \<lparr>env_TMUX_PANE = Some pane1, current_pane = Some pane1,
      current_session = Some (ascii ''main''),
      panes = [pane1 \<mapsto> \<lparr>window_name = name, automatic_rename = auto\<rparr>],
      list_panes_output = Some (ascii ''main:0.0:%1:bash:4242''),
      tmux_faults = faults, state_files = Map.empty, tracker_file = None,
      fs_readonly = False, clock = 1000, log = []\<rparr>"

text \<open>
  The world after a stop hook has run in \<open>%1\<close>, named \<open>build\<close> with automatic rename
  on, with the given faults still to come.
\<close>

definition overlaid_world :: "bool list \<Rightarrow> world" where
  "overlaid_world faults =
     (snd (handle_stop_hook (one_pane_world (ascii ''build'') True [])))\<lparr>tmux_faults := faults\<rparr>"

text \<open>
  Everything but the tmux side (the panes, the faults still to come) and the log is
  the same in both worlds.
\<close>

definition tmux_only :: "world \<Rightarrow> world \<Rightarrow> bool" where
  "tmux_only w w' \<longleftrightarrow>
     state_files w' = state_files w \<and> tracker_file w' = tracker_file w \<and>
     fs_readonly w' = fs_readonly w \<and> clock w' = clock w \<and>
     env_TMUX_PANE w' = env_TMUX_PANE w \<and> current_pane w' = current_pane w \<and>
     current_session w' = current_session w \<and> list_panes_output w' = list_panes_output w"

text \<open>
  Worlds for the monitor: the pane \<open>%1\<close> is live; state files exist for \<open>%1\<close> and for
  \<open>%9\<close>, a pane that is gone, both written at time 900; the tracker file holds the
  given pane ids; \<open>list-panes\<close> prints the given listing, or fails.
\<close>

definition sample_record :: "str \<Rightarrow> pane_state" where
  "sample_record p =
     \<lparr>pane_id = p, original_name = ascii ''build'', status = ''stop'', timestamp = 900,
      auto_rename_was_on = Some False\<rparr>"

definition sample_listing :: str where
  "sample_listing = ascii ''main:0.0:%1:bash:4242''"

definition monitor_world :: "str list \<Rightarrow> str option \<Rightarrow> real \<Rightarrow> world" where
  "monitor_world tracked listing now =
     (one_pane_world (ascii ''build'') False [])
       \<lparr>list_panes_output := listing,
        tracker_file := Some (Tracked (map (\<lambda>p. (p, \<lparr>session_name = ascii ''main'',
                          last_activity = 900, tracked_status = ''active''\<rparr>)) tracked)),
        state_files :=
          [ascii ''1'' \<mapsto> \<lparr>content = Decoded (Record (sample_record (ascii ''%1''))),
                             mtime = 900, write_protected = False\<rparr>,
           ascii ''9'' \<mapsto> \<lparr>content = Decoded (Record (sample_record (ascii ''%9''))),
                             mtime = 900, write_protected = False\<rparr>],
        clock := now\<rparr>"

text \<open>
  The listing as the format string of \<open>get_all_panes\<close> lays it out,
  \<open>#{session_name}:#{window_index}.#{pane_index}:#{pane_id}:#{pane_title}:#{pane_pid}\<close>:
  the fields of every line that is not blank and has five fields or more. The pane
  id is the third field; the second is the window and pane index.
\<close>

definition listed_fields :: "world \<Rightarrow> str list list" where
  "listed_fields w =
     (case list_panes_output w of
        None \<Rightarrow> []
      | Some out \<Rightarrow>
          map (py_split 58)
            (filter (\<lambda>line. py_strip line \<noteq> [] \<and> length (py_split 58 line) \<ge> 5)
               (py_split 10 (py_strip out))))"

text \<open>The live resource enumeration: the pane ids tmux lists.\<close>

definition live_pane_ids :: "world \<Rightarrow> str list" where
  "live_pane_ids w = map (\<lambda>parts. parts ! 2) (listed_fields w)"

text \<open>
  In every listed line the second field is what tmux prints for
  \<open>#{window_index}.#{pane_index}\<close>: digits and a dot.
\<close>

definition listing_well_formed :: "world \<Rightarrow> bool" where
  "listing_well_formed w \<longleftrightarrow>
     list_all (\<lambda>parts. list_all (\<lambda>c. c = 46 \<or> (48 \<le> c \<and> c \<le> 57)) (parts ! 1))
       (listed_fields w)"

text \<open>A pane id as tmux issues it: a percent sign and digits.\<close>

definition tmux_pane_id :: "str \<Rightarrow> bool" where
  "tmux_pane_id p \<longleftrightarrow>
     (case p of
        [] \<Rightarrow> False
      | c # ds \<Rightarrow> c = 37 \<and> ds \<noteq> [] \<and> list_all (\<lambda>d. 48 \<le> d \<and> d \<le> 57) ds)"

text \<open>A world where the state file of \<open>%1\<close> holds bytes that are not UTF-8.\<close>

definition not_utf8_world :: world where
  "not_utf8_world =
     (one_pane_world (ascii ''build'') True [])
       \<lparr>state_files :=
          [ascii ''1'' \<mapsto> \<lparr>content = NotUTF8, mtime = 900, write_protected = False\<rparr>]\<rparr>"

section \<open>Strings and frames\<close>

lemma py_isspace_newline: "py_isspace 10"
  by (simp add: py_isspace_def)

lemma py_strip_newline: "py_strip (s @ [10]) = py_strip s"
proof (cases "\<forall>c\<in>set s. py_isspace c")
  case True
  have a: "dropWhile py_isspace (s @ [10]) = []"
    using True py_isspace_newline by (simp add: dropWhile_eq_Nil_conv)
  have b: "dropWhile py_isspace s = []"
    using True by (simp add: dropWhile_eq_Nil_conv)
  show ?thesis by (simp add: py_strip_def a b)
next
  case False
  then have "dropWhile py_isspace (s @ [10]) = dropWhile py_isspace s @ [10]"
    by (auto simp: dropWhile_append1)
  then show ?thesis by (simp add: py_strip_def py_isspace_newline)
qed

lemma py_strip_nonspace: "\<not> py_isspace c \<Longrightarrow> py_strip (c # s) \<noteq> []"
  by (auto simp: py_strip_def dropWhile_eq_Nil_conv)

text \<open>
  What each function leaves alone. The queries of tmux change nothing on the tmux side
  but the faults still to come; a tmux command that exits non-zero changes no pane.
\<close>

lemma tmux_only_refl: "tmux_only w w" by (simp add: tmux_only_def)
lemma tmux_only_trans: "tmux_only a b \<Longrightarrow> tmux_only b c \<Longrightarrow> tmux_only a c" by (simp add: tmux_only_def)
lemma tmux_only_log [simp]: "tmux_only w (w'\<lparr>log := l\<rparr>)  = tmux_only w w'" by (simp add: tmux_only_def)

lemma run_tmux_frame: "run_tmux c w = (r, w') \<Longrightarrow> tmux_only w w'"
  by (cases c) (auto simp: run_tmux_def tmux_exec_def tmux_only_def Let_def split: if_splits option.splits list.splits)

lemma run_tmux_None_panes: "run_tmux c w = (None, w') \<Longrightarrow> tmux_only w w' \<and> panes w' = panes w"
  by (cases c) (auto simp: run_tmux_def tmux_exec_def tmux_only_def Let_def split: if_splits option.splits list.splits)

lemma run_tmux_query_panes: "c \<in> {DisplayPaneId, DisplaySessionName, DisplayWindowName t, ShowAutomaticRename t, ListPanes} \<Longrightarrow> run_tmux c w = (r, w') \<Longrightarrow> panes w' = panes w"
  by (auto simp: run_tmux_def tmux_exec_def Let_def split: if_splits option.splits list.splits)

lemma get_current_tmux_pane_frame: "get_current_tmux_pane w = (r, w') \<Longrightarrow> tmux_only w w' \<and> panes w' = panes w"
  by (auto simp: get_current_tmux_pane_def log_error_def split: prod.splits option.splits dest: run_tmux_frame run_tmux_query_panes[where c=DisplayPaneId, simplified])

lemma get_claude_pane_id_frame: "get_claude_pane_id w = (r, w') \<Longrightarrow> tmux_only w w' \<and> panes w' = panes w"
  by (auto simp: get_claude_pane_id_def tmux_only_refl log_error_def split: prod.splits option.splits list.splits dest: get_current_tmux_pane_frame)

lemma get_pane_name_frame: "get_pane_name p w = (r, w') \<Longrightarrow> tmux_only w w' \<and> panes w' = panes w"
  by (auto simp: get_pane_name_def log_error_def split: prod.splits option.splits dest: run_tmux_frame run_tmux_query_panes[where c="DisplayWindowName p" and t=p, simplified])

lemma load_pane_state_frame: "load_pane_state p w = (r, w') \<Longrightarrow> tmux_only w w' \<and> panes w' = panes w \<and> tmux_faults w' = tmux_faults w"
  by (auto simp: load_pane_state_def tmux_only_refl log_error_def split: option.splits file_content.splits)

lemma set_window_auto_rename_frame:
  "set_window_auto_rename p b w = (r, w') \<Longrightarrow>
     tmux_only w w' \<and>
     (panes w' = panes w \<or>
      (\<exists>pn. panes w p = Some pn \<and> panes w' = (panes w)(p \<mapsto> pn\<lparr>automatic_rename := b\<rparr>)))"
  by (auto simp: set_window_auto_rename_def run_tmux_def tmux_exec_def Let_def tmux_only_def
        log_error_def split: prod.splits option.splits if_splits list.splits)

lemma set_pane_name_failed:
  "set_pane_name p n w = (False, w') \<Longrightarrow>
     tmux_only w w' \<and>
     (panes w' = panes w \<or>
      (\<exists>pn. panes w p = Some pn \<and> panes w' = (panes w)(p \<mapsto> pn\<lparr>automatic_rename := False\<rparr>)))"
  unfolding set_pane_name_def
  by (auto simp: log_error_def split: prod.splits option.splits
        dest!: set_window_auto_rename_frame run_tmux_None_panes
        intro: tmux_only_trans)

lemma handle_hook_abandoned:
  assumes "handle_hook e st w = (r, w')" and "r \<in> {NoPaneId, NoCurrentName, SetNameFailed}"
  shows "tmux_only w w' \<and>
         (panes w' = panes w \<or>
          (r = SetNameFailed \<and>
           (\<exists>p pn. panes w p = Some pn \<and>
              panes w' = (panes w)(p \<mapsto> pn\<lparr>automatic_rename := False\<rparr>))))"
proof -
  obtain po w1 where g: "get_claude_pane_id w = (po, w1)"
    by (cases "get_claude_pane_id w")
  note f1 = get_claude_pane_id_frame [OF g]
  show ?thesis
  proof (cases po)
    case None
    then show ?thesis using assms g f1 by (auto simp: handle_hook_def log_error_def)
  next
    case (Some p)
    obtain no w2 where n: "get_pane_name p w1 = (no, w2)"
      by (cases "get_pane_name p w1")
    note f2 = get_pane_name_frame [OF n]
    have f12: "tmux_only w w2" "panes w2 = panes w"
      using f1 f2 by (simp_all add: tmux_only_def)
    show ?thesis
    proof (cases "no = None \<or> no = Some []")
      case True
      then show ?thesis using assms g Some n f12
        by (auto simp: handle_hook_def log_error_def)
    next
      case False
      then obtain c cs where cur: "no = Some (c # cs)"
        by (cases no) (auto simp: neq_Nil_conv)
      obtain lr w3 where l: "load_pane_state p w2 = (lr, w3)"
        by (cases "load_pane_state p w2")
      note f3 = load_pane_state_frame [OF l]
      have f13: "tmux_only w w3" "panes w3 = panes w"
        using f12 f3 by (simp_all add: tmux_only_def)
      show ?thesis
      proof (cases lr)
        case (Inl err)
        then show ?thesis using assms g Some n cur l by (auto simp: handle_hook_def)
      next
        case (Inr state)
        show ?thesis
        proof (cases "name_to_remember state (c # cs)")
          case (Inl err)
          then show ?thesis using assms g Some n cur l Inr by (auto simp: handle_hook_def)
        next
          case orig: (Inr orig)
          obtain ok w4 where sp: "set_pane_name p (e @ 32 # orig) w3 = (ok, w4)"
            by (cases "set_pane_name p (e @ 32 # orig) w3")
          show ?thesis
          proof (cases ok)
            case True
            then show ?thesis using assms g Some n cur l Inr orig sp
              by (auto simp: handle_hook_def Let_def case_prod_unfold)
          next
            case False
            have spf: "set_pane_name p (e @ 32 # orig) w3 = (False, w4)"
              using sp False by simp
            note f4 = set_pane_name_failed [OF spf]
            have "r = SetNameFailed"
                 "w' = log_error ''Failed to set pane name'' (Some p) w4"
              using assms(1) g Some n cur l Inr orig spf
              by (simp_all add: handle_hook_def Let_def)
            then show ?thesis using f4 f13
              by (auto simp: tmux_only_def log_error_def)
          qed
        qed
      qed
    qed
  qed
qed

text \<open>The definitions a run on a sample world unfolds.\<close>

lemmas eval_defs = handle_stop_hook_def handle_notification_hook_def handle_pretooluse_hook_def
  is_waiting_for_permission_def handle_hook_def
  get_claude_pane_id_def get_pane_name_def load_pane_state_def set_pane_name_def
  set_window_auto_rename_def save_pane_state_def get_window_auto_rename_status_def
  get_current_tmux_session_def get_current_tmux_pane_def restore_pane_name_def cleanup_pane_state_def
  run_tmux_def tmux_exec_def log_error_def log_warning_def state_file_key_def remove_percent_def
  one_pane_world_def pane1_def ascii_def py_strip_def py_isspace_def
  emoji_stop_def emoji_notification_def emoji_permission_def emoji_refresh_def known_emoji_def
  displayed_name_def auto_naming_def stored_record_def has_marker_def Let_def
  name_to_remember_def state_write_fails_def no_record_def

section \<open>The hooks when a tmux call fails\<close>

lemma hooks_are_handle_hook:
  assumes "h \<in> {handle_stop_hook, handle_notification_hook, handle_pretooluse_hook i}"
      and "h w = (r, w')" and "r \<noteq> NotWaiting"
  shows "\<exists>e st. handle_hook e st w = (r, w')"
proof -
  consider "h = handle_stop_hook" | "h = handle_notification_hook"
    | "h = handle_pretooluse_hook i"
    using assms(1) by auto
  then show ?thesis
  proof cases
    case 1
    then show ?thesis using assms(2) unfolding handle_stop_hook_def by blast
  next
    case 2
    then show ?thesis using assms(2) unfolding handle_notification_hook_def by blast
  next
    case 3
    then have "handle_hook emoji_permission ''permission'' w = (r, w')"
      using assms(2,3) by (auto simp: handle_pretooluse_hook_def split: if_splits)
    then show ?thesis by blast
  qed
qed

text \<open>
  C5. When \<open>set_pane_name\<close> fails inside a hook (the stop hook, the notification hook
  or the pre-tool-use hook), the hook returns on its \<open>Failed to set pane name\<close> branch
  without writing a record: the state files and the tracker file are what they were
  before the call, a record saved earlier for the pane included.
\<close>

theorem set_name_failure_leaves_store:
  assumes "h \<in> {handle_stop_hook, handle_notification_hook, handle_pretooluse_hook i}"
      and "h w = (SetNameFailed, w')"
  shows "state_files w' = state_files w \<and> tracker_file w' = tracker_file w"
proof -
  obtain e st where "handle_hook e st w = (SetNameFailed, w')"
    using hooks_are_handle_hook [OF assms] by auto
  then have "tmux_only w w'"
    using handle_hook_abandoned by blast
  then show ?thesis by (simp add: tmux_only_def)
qed

text \<open>
  The notification hook in a pane that shows the stop overlay, with the third tmux
  call (\<open>rename-window\<close>) failing: the record of the stop overlay stays.
\<close>

theorem set_name_failure_leaves_store_witness:
  "fst (handle_notification_hook (overlaid_world [False, False, True])) = SetNameFailed \<and>
   state_files (snd (handle_notification_hook (overlaid_world [False, False, True]))) =
     state_files (overlaid_world [False, False, True]) \<and>
   map_option status (stored_record (overlaid_world [False, False, True]) pane1) = Some ''stop''"
proof -
  let ?w = "overlaid_world [False, False, True]"
  have res: "fst (handle_notification_hook ?w) = SetNameFailed"
    by (simp add: overlaid_world_def eval_defs)
  then have run: "handle_notification_hook ?w = (SetNameFailed, snd (handle_notification_hook ?w))"
    by (simp add: prod_eq_iff)
  have rec: "map_option status (stored_record ?w pane1) = Some ''stop''"
    by (simp add: overlaid_world_def eval_defs)
  show ?thesis
    using set_name_failure_leaves_store [of handle_notification_hook NoPayload, OF _ run] res rec
    by simp
qed

text \<open>
  C6, as amended. A hook that gives up because a tmux call failed (no pane id, no
  current name, or the rename failed) leaves the state files, the tracker file and
  every window name as they were. The panes are untouched too, except that on the
  rename failure the automatic-rename option of the pane may already have been
  switched off by \<open>set_pane_name\<close>.
\<close>

theorem apply_abandoned_effects:
  assumes "h \<in> {handle_stop_hook, handle_notification_hook, handle_pretooluse_hook i}"
      and "h w = (r, w')"
      and "r \<in> {NoPaneId, NoCurrentName, SetNameFailed}"
  shows "state_files w' = state_files w \<and> tracker_file w' = tracker_file w \<and>
         displayed_name w' = displayed_name w \<and>
         (panes w' = panes w \<or>
          (r = SetNameFailed \<and>
           (\<exists>p pn. panes w p = Some pn \<and>
              panes w' = (panes w)(p \<mapsto> pn\<lparr>automatic_rename := False\<rparr>))))"
proof -
  have "r \<noteq> NotWaiting" using assms(3) by auto
  then obtain e st where hh: "handle_hook e st w = (r, w')"
    using hooks_are_handle_hook [OF assms(1,2)] by auto
  note ab = handle_hook_abandoned [OF hh assms(3)]
  have names: "displayed_name w' = displayed_name w"
    using ab by (auto simp: displayed_name_def fun_eq_iff)
  show ?thesis using ab names by (simp add: tmux_only_def)
qed

text \<open>
  C6 as stated fails: in pane \<open>%1\<close> with automatic rename on, when \<open>display-message\<close>
  and \<open>set-option\<close> succeed and \<open>rename-window\<close> fails, the stop hook gives up and
  automatic rename is off afterwards.
\<close>

theorem apply_abandoned_counterexample:
  "fst (handle_stop_hook (one_pane_world (ascii ''build'') True [False, False, True]))
     = SetNameFailed \<and>
   auto_naming (one_pane_world (ascii ''build'') True [False, False, True]) pane1 = Some True \<and>
   auto_naming (snd (handle_stop_hook (one_pane_world (ascii ''build'') True [False, False, True])))
     pane1 = Some False"
  by (simp add: eval_defs)

text \<open>The amended statement at the same run.\<close>

theorem apply_abandoned_effects_witness:
  "fst (handle_stop_hook (one_pane_world (ascii ''build'') True [False, False, True]))
     = SetNameFailed \<and>
   displayed_name (snd (handle_stop_hook (one_pane_world (ascii ''build'') True [False, False, True])))
     pane1 = Some (ascii ''build'') \<and>
   state_files (snd (handle_stop_hook (one_pane_world (ascii ''build'') True [False, False, True])))
     = Map.empty"
proof -
  let ?w = "one_pane_world (ascii ''build'') True [False, False, True]"
  have res: "fst (handle_stop_hook ?w) = SetNameFailed"
    by (simp add: eval_defs)
  then have run: "handle_stop_hook ?w = (SetNameFailed, snd (handle_stop_hook ?w))"
    by (simp add: prod_eq_iff)
  have before: "displayed_name ?w pane1 = Some (ascii ''build'')" "state_files ?w = Map.empty"
    by (simp_all add: eval_defs)
  show ?thesis
    using apply_abandoned_effects [of handle_stop_hook NoPayload, OF _ run] res before
    by simp
qed

section \<open>The automatic-rename snapshot\<close>

text \<open>
  C1. The claim is that the first overlay on a pane without a record saves the
  automatic-rename option as it was before the overlay switched it off, and that
  restoring puts that value back. The code reads the option in \<open>save_pane_state\<close>,
  after \<open>set_pane_name\<close> has switched it off. In pane \<open>%1\<close>, named \<open>build\<close>, with
  automatic rename on and no record, the stop hook completes, the record holds
  \<open>auto_rename_was_on = False\<close>, and after \<open>restore_pane_name\<close> automatic rename is off.
\<close>

theorem stop_hook_snapshot_lost:
  "auto_naming (one_pane_world (ascii ''build'') True []) pane1 = Some True \<and>
   stored_record (one_pane_world (ascii ''build'') True []) pane1 = None \<and>
   fst (handle_stop_hook (one_pane_world (ascii ''build'') True [])) = HookCompleted \<and>
   map_option auto_rename_was_on
     (stored_record (snd (handle_stop_hook (one_pane_world (ascii ''build'') True []))) pane1)
     = Some (Some False) \<and>
   fst (restore_pane_name pane1 (snd (handle_stop_hook (one_pane_world (ascii ''build'') True []))))
     = Inr True \<and>
   auto_naming
     (snd (restore_pane_name pane1
        (snd (handle_stop_hook (one_pane_world (ascii ''build'') True []))))) pane1
     = Some False"
  by (simp add: eval_defs)

text \<open>
  C7. For the pane named \<open>build\<close> without a record, the stop hook shows
  \<open>emoji_stop\<close>, a space and \<open>build\<close>, and \<open>restore_pane_name\<close> brings the name back to
  \<open>build\<close> and removes the state file. The pane is not back in the state it had
  before the overlay: automatic rename was on and is off after the restore.
\<close>

theorem build_round_trip_toggle_lost:
  "displayed_name (one_pane_world (ascii ''build'') True []) pane1 = Some (ascii ''build'') \<and>
   displayed_name (snd (handle_stop_hook (one_pane_world (ascii ''build'') True []))) pane1
     = Some (emoji_stop @ 32 # ascii ''build'') \<and>
   displayed_name
     (snd (restore_pane_name pane1
        (snd (handle_stop_hook (one_pane_world (ascii ''build'') True []))))) pane1
     = Some (ascii ''build'') \<and>
   state_files
     (snd (restore_pane_name pane1
        (snd (handle_stop_hook (one_pane_world (ascii ''build'') True []))))) = Map.empty \<and>
   auto_naming (one_pane_world (ascii ''build'') True []) pane1 = Some True \<and>
   auto_naming
     (snd (restore_pane_name pane1
        (snd (handle_stop_hook (one_pane_world (ascii ''build'') True []))))) pane1
     = Some False"
  by (simp add: eval_defs)


section \<open>The monitor\<close>

lemmas monitor_defs = monitor_pass_def cleanup_old_states_def cleanup_dead_panes_def
  get_all_panes_def run_tmux_command_def load_tracked_panes_def save_tracked_panes_def
  unlink_state_file_def dict_del_def monitor_world_def sample_listing_def sample_record_def
  max_age_def listed_fields_def live_pane_ids_def listing_well_formed_def tmux_pane_id_def

lemma run_tmux_command_frame:
  "run_tmux_command c w = (r, w') \<Longrightarrow> tmux_only w w'"
  by (auto simp: run_tmux_command_def log_error_def split: prod.splits option.splits
        dest: run_tmux_frame)

lemma get_all_panes_frame: "get_all_panes w = (ps, w') \<Longrightarrow> tmux_only w w'"
  by (auto simp: get_all_panes_def split: prod.splits option.splits list.splits
        dest: run_tmux_command_frame)

lemma get_all_panes_failed:
  "fst (run_tmux ListPanes w) = None \<Longrightarrow> fst (get_all_panes w) = []"
  by (auto simp: get_all_panes_def run_tmux_command_def split: prod.splits option.splits list.splits)

lemma remove_dead_panes_result:
  "remove_dead_panes ds t w = (t', w') \<Longrightarrow>
     t' = filter (\<lambda>kv. fst kv \<notin> set ds) t \<and>
     fs_readonly w' = fs_readonly w \<and> clock w' = clock w \<and>
     tracker_file w' = tracker_file w \<and>
     state_files w' =
       (\<lambda>k. if \<not> fs_readonly w \<and> k \<in> state_file_key ` set ds then None else state_files w k)"
proof (induction ds arbitrary: t w)
  case Nil
  then show ?case by auto
next
  case (Cons p ps)
  from Cons.prems
  have "remove_dead_panes ps (dict_del p t) (unlink_state_file (state_file_key p) w) = (t', w')"
    by simp
  from Cons.IH [OF this] show ?case
    by (auto simp: dict_del_def unlink_state_file_def fun_eq_iff split: option.splits)
qed

lemma cleanup_dead_panes_frame:
  "fs_readonly (cleanup_dead_panes w) = fs_readonly w \<and>
   clock (cleanup_dead_panes w) = clock w \<and>
   (\<forall>k. state_files (cleanup_dead_panes w) k = state_files w k \<or>
        state_files (cleanup_dead_panes w) k = None)"
  by (auto simp: cleanup_dead_panes_def Let_def save_tracked_panes_def tmux_only_def
        split: prod.splits if_splits
        dest!: get_all_panes_frame remove_dead_panes_result)

lemma cleanup_dead_panes_removes:
  assumes "p \<in> set (map fst (load_tracked_panes w))"
      and "p \<notin> set (map info_pane_id (fst (get_all_panes w)))"
      and "\<not> fs_readonly w"
  shows "p \<notin> set (map fst (load_tracked_panes (cleanup_dead_panes w))) \<and>
         state_files (cleanup_dead_panes w) (state_file_key p) = None"
proof -
  obtain ps w1 where g: "get_all_panes w = (ps, w1)" by (cases "get_all_panes w")
  let ?dead = "filter (\<lambda>p. p \<notin> set (map info_pane_id ps)) (map fst (load_tracked_panes w))"
  have pd: "p \<in> set ?dead" using assms g by auto
  then have ne: "?dead \<noteq> []" by (metis empty_iff list.set(1))
  obtain t w2 where r: "remove_dead_panes ?dead (load_tracked_panes w) w1 = (t, w2)"
    by (cases "remove_dead_panes ?dead (load_tracked_panes w) w1")
  have f1: "tmux_only w w1" using g by (rule get_all_panes_frame)
  note res = remove_dead_panes_result [OF r]
  have c: "cleanup_dead_panes w = save_tracked_panes t w2"
    using g r ne by (simp add: cleanup_dead_panes_def Let_def)
  have ro: "\<not> fs_readonly w2" using res f1 assms(3) by (simp add: tmux_only_def)
  have "p \<notin> set (map fst t)" using res pd by auto
  moreover have "state_files w2 (state_file_key p) = None"
    using res f1 assms(3) pd by (auto simp: tmux_only_def)
  ultimately show ?thesis using c ro
    by (simp add: save_tracked_panes_def load_tracked_panes_def)
qed

lemma cleanup_old_states_frame:
  "tracker_file (cleanup_old_states w) = tracker_file w \<and>
   (state_files w k = None \<longrightarrow> state_files (cleanup_old_states w) k = None)"
  by (simp add: cleanup_old_states_def Let_def)

text \<open>
  The pane ids \<open>get_all_panes\<close> returns are second fields of listed lines.
\<close>

lemma parse_pane_lines_ids:
  "map info_pane_id (parse_pane_lines ls) =
     map (\<lambda>line. py_split 58 line ! 1)
       (filter (\<lambda>line. py_strip line \<noteq> [] \<and> length (py_split 58 line) \<ge> 5) ls)"
  by (induction ls) (simp_all add: Let_def)

lemma get_all_panes_ids:
  "set (map info_pane_id (fst (get_all_panes w)))
     \<subseteq> set (map (\<lambda>parts. parts ! 1) (listed_fields w))"
proof (cases "fst (run_tmux ListPanes w)")
  case None
  then show ?thesis using get_all_panes_failed by simp
next
  case (Some out)
  then have out: "list_panes_output w = Some out"
    by (auto simp: run_tmux_def tmux_exec_def Let_def split: if_splits option.splits)
  obtain w1 where "run_tmux ListPanes w = (Some out, w1)"
    using Some by (cases "run_tmux ListPanes w") simp
  then have r: "run_tmux_command ListPanes w = (Some (py_strip out), w1)"
    by (simp add: run_tmux_command_def)
  show ?thesis
  proof (cases "py_strip out")
    case Nil
    then have "fst (get_all_panes w) = []"
      by (simp add: get_all_panes_def r)
    then show ?thesis by simp
  next
    case (Cons c cs)
    then have "fst (get_all_panes w) = parse_pane_lines (py_split 10 (py_strip out))"
      by (simp add: get_all_panes_def r del: py_split.simps)
    then show ?thesis
      by (simp add: listed_fields_def out parse_pane_lines_ids comp_def del: py_split.simps)
  qed
qed

lemma pane_id_not_listed_index:
  assumes "tmux_pane_id p" and "listing_well_formed w"
  shows "p \<notin> set (map info_pane_id (fst (get_all_panes w)))"
proof
  assume "p \<in> set (map info_pane_id (fst (get_all_panes w)))"
  then obtain parts where "parts \<in> set (listed_fields w)" "p = parts ! 1"
    using get_all_panes_ids [of w] by auto
  then have "list_all (\<lambda>c. c = 46 \<or> (48 \<le> c \<and> c \<le> 57)) p"
    using assms(2) by (auto simp: listing_well_formed_def list_all_iff)
  then show False using assms(1)
    by (cases p) (simp_all add: tmux_pane_id_def)
qed

text \<open>
  C4, as amended. A tmux pane id that has an entry in the tracker file and is absent
  from the live resource enumeration (the pane ids of the listing) loses its tracker
  entry and its state file in one pass of the monitor, when the script directory
  accepts changes. No restore is needed first.
\<close>

theorem dead_tracked_pane_evicted:
  assumes "p \<in> set (map fst (load_tracked_panes w))"
      and "p \<notin> set (live_pane_ids w)"
      and "tmux_pane_id p" and "listing_well_formed w"
      and "\<not> fs_readonly w"
  shows "p \<notin> set (map fst (load_tracked_panes (monitor_pass w))) \<and>
         state_files (monitor_pass w) (state_file_key p) = None"
  using cleanup_dead_panes_removes [OF assms(1) pane_id_not_listed_index [OF assms(3,4)] assms(5)]
        cleanup_old_states_frame [of "cleanup_dead_panes w" "state_file_key p"]
  by (simp add: monitor_pass_def load_tracked_panes_def)

text \<open>
  C8. A state file last written more than 3600 seconds ago is removed by the next
  pass of the monitor, whether its pane is live or not, when the script directory
  accepts changes. The time of the save is the modification time of the file, which
  \<open>save_pane_state\<close> writes at the clock reading it also stores as \<open>timestamp\<close>.
\<close>

theorem stale_record_evicted:
  assumes "state_files w k = Some f" and "clock w - mtime f > 3600" and "\<not> fs_readonly w"
  shows "state_files (monitor_pass w) k = None"
  using assms cleanup_dead_panes_frame [of w]
  by (auto simp: monitor_pass_def cleanup_old_states_def max_age_def Let_def
        split: option.splits dest: spec [where x = k])

text \<open>
  C10. When \<open>list-panes\<close> exits non-zero, \<open>get_all_panes\<close> returns the empty list; a
  pass of the monitor then takes every tracked pane for dead: the tracker is empty
  afterwards and the state file of every pane that was tracked is gone, when the
  script directory accepts changes.
\<close>

theorem enumeration_failure_evicts_all:
  assumes "fst (run_tmux ListPanes w) = None" and "\<not> fs_readonly w"
  shows "fst (get_all_panes w) = [] \<and>
         load_tracked_panes (monitor_pass w) = [] \<and>
         (\<forall>p \<in> set (map fst (load_tracked_panes w)).
            state_files (monitor_pass w) (state_file_key p) = None)"
proof -
  have e: "fst (get_all_panes w) = []" using assms(1) by (rule get_all_panes_failed)
  have each: "p \<notin> set (map fst (load_tracked_panes (monitor_pass w))) \<and>
              state_files (monitor_pass w) (state_file_key p) = None"
    if "p \<in> set (map fst (load_tracked_panes w))" for p
    using cleanup_dead_panes_removes [OF that _ assms(2)] e
          cleanup_old_states_frame [of "cleanup_dead_panes w" "state_file_key p"]
    by (simp add: monitor_pass_def load_tracked_panes_def)
  obtain ps w1 where g: "get_all_panes w = (ps, w1)" by (cases "get_all_panes w")
  then have ps: "ps = []" using e by simp
  have t: "load_tracked_panes (cleanup_dead_panes w) = []"
  proof (cases "load_tracked_panes w = []")
    case True
    then show ?thesis using g ps get_all_panes_frame [OF g]
      by (simp add: cleanup_dead_panes_def Let_def load_tracked_panes_def tmux_only_def)
  next
    case False
    let ?dead = "map fst (load_tracked_panes w)"
    obtain t w2 where r: "remove_dead_panes ?dead (load_tracked_panes w) w1 = (t, w2)"
      by (cases "remove_dead_panes ?dead (load_tracked_panes w) w1")
    note res = remove_dead_panes_result [OF r]
    have "t = []" using res by (auto simp: filter_empty_conv)
    moreover have "\<not> fs_readonly w2"
      using res get_all_panes_frame [OF g] assms(2) by (simp add: tmux_only_def)
    moreover have "cleanup_dead_panes w = save_tracked_panes t w2"
      using g ps r False by (simp add: cleanup_dead_panes_def Let_def)
    ultimately show ?thesis by (simp add: save_tracked_panes_def load_tracked_panes_def)
  qed
  have "load_tracked_panes (monitor_pass w) = []"
    using t cleanup_old_states_frame [of "cleanup_dead_panes w"]
    by (simp add: monitor_pass_def load_tracked_panes_def)
  then show ?thesis using e each by blast
qed

lemmas eval_defs2 = eval_defs monitor_defs

text \<open>
  The listing line of the live pane \<open>%1\<close> yields the pane id \<open>0.0\<close>: \<open>get_all_panes\<close>
  takes \<open>parts[1]\<close>, the window and pane index, for the pane id, where the format
  puts the pane id third.
\<close>

lemma listing_parsed:
  "map info_pane_id (fst (get_all_panes (monitor_world tr (Some sample_listing) now))) = [ascii ''0.0'']
   \<and> live_pane_ids (monitor_world tr (Some sample_listing) now) = [ascii ''%1'']"
  by (simp add: eval_defs2)

text \<open>
  C4 as stated fails: the pane \<open>%9\<close> is gone and is not in the live enumeration, its
  record is in the state files, its id is not in the tracker file. After a pass of the
  monitor the record is still there: the sweep of dead panes walks the tracker file,
  not the state files.
\<close>

theorem orphan_record_survives:
  "panes (monitor_world [] (Some sample_listing) 1000) (ascii ''%9'') = None \<and>
   ascii ''%9'' \<notin> set (live_pane_ids (monitor_world [] (Some sample_listing) 1000)) \<and>
   stored_record (monitor_world [] (Some sample_listing) 1000) (ascii ''%9'')
     = Some (sample_record (ascii ''%9'')) \<and>
   stored_record (monitor_pass (monitor_world [] (Some sample_listing) 1000)) (ascii ''%9'')
     = Some (sample_record (ascii ''%9''))"
  by (simp add: eval_defs2)

text \<open>The amended statement for \<open>%9\<close> once it is tracked.\<close>

theorem dead_tracked_pane_evicted_witness:
  "ascii ''%9'' \<in> set (map fst (load_tracked_panes
      (monitor_world [ascii ''%9''] (Some sample_listing) 1000))) \<and>
   ascii ''%9'' \<notin> set (live_pane_ids (monitor_world [ascii ''%9''] (Some sample_listing) 1000)) \<and>
   ascii ''%9'' \<notin> set (map fst (load_tracked_panes
      (monitor_pass (monitor_world [ascii ''%9''] (Some sample_listing) 1000)))) \<and>
   state_files (monitor_pass (monitor_world [ascii ''%9''] (Some sample_listing) 1000))
     (ascii ''9'') = None"
proof -
  let ?w = "monitor_world [ascii ''%9''] (Some sample_listing) 1000"
  have a: "ascii ''%9'' \<in> set (map fst (load_tracked_panes ?w))"
    by (simp add: eval_defs2)
  have b: "ascii ''%9'' \<notin> set (live_pane_ids ?w)"
    by (simp add: eval_defs2)
  have c: "tmux_pane_id (ascii ''%9'')" "listing_well_formed ?w"
    by (simp_all add: eval_defs2)
  have d: "\<not> fs_readonly ?w" by (simp add: eval_defs2)
  have k: "state_file_key (ascii ''%9'') = ascii ''9''" by (simp add: eval_defs2)
  show ?thesis using dead_tracked_pane_evicted [OF a b c d] a b k by simp
qed

text \<open>The live pane \<open>%1\<close>, its record written at 900, the pass at 5000.\<close>

theorem stale_record_evicted_witness:
  "panes (monitor_world [] (Some sample_listing) 5000) (ascii ''%1'') \<noteq> None \<and>
   state_files (monitor_world [] (Some sample_listing) 5000) (ascii ''1'')
     = Some \<lparr>content = Decoded (Record (sample_record (ascii ''%1''))), mtime = 900,
              write_protected = False\<rparr> \<and>
   state_files (monitor_pass (monitor_world [] (Some sample_listing) 5000)) (ascii ''1'') = None"
proof -
  let ?w = "monitor_world [] (Some sample_listing) 5000"
  let ?f = "\<lparr>content = Decoded (Record (sample_record (ascii ''%1''))), mtime = 900,
              write_protected = False\<rparr>"
  have a: "state_files ?w (ascii ''1'') = Some ?f" by (simp add: eval_defs2)
  have b: "clock ?w - mtime ?f > 3600" by (simp add: eval_defs2)
  have c: "\<not> fs_readonly ?w" by (simp add: eval_defs2)
  have d: "panes ?w (ascii ''%1'') \<noteq> None" by (simp add: eval_defs2)
  show ?thesis using stale_record_evicted [OF a b c] a d by simp
qed

text \<open>Both \<open>%1\<close> and \<open>%9\<close> tracked, \<open>list-panes\<close> failing.\<close>

theorem enumeration_failure_evicts_all_witness:
  "fst (run_tmux ListPanes (monitor_world [ascii ''%1'', ascii ''%9''] None 1000)) = None \<and>
   map fst (load_tracked_panes (monitor_world [ascii ''%1'', ascii ''%9''] None 1000))
     = [ascii ''%1'', ascii ''%9''] \<and>
   load_tracked_panes (monitor_pass (monitor_world [ascii ''%1'', ascii ''%9''] None 1000)) = [] \<and>
   state_files (monitor_pass (monitor_world [ascii ''%1'', ascii ''%9''] None 1000)) (ascii ''1'')
     = None \<and>
   state_files (monitor_pass (monitor_world [ascii ''%1'', ascii ''%9''] None 1000)) (ascii ''9'')
     = None"
proof -
  let ?w = "monitor_world [ascii ''%1'', ascii ''%9''] None 1000"
  have a: "fst (run_tmux ListPanes ?w) = None" by (simp add: eval_defs2)
  have c: "\<not> fs_readonly ?w" by (simp add: eval_defs2)
  have t: "map fst (load_tracked_panes ?w) = [ascii ''%1'', ascii ''%9'']"
    by (simp add: eval_defs2)
  have k: "state_file_key (ascii ''%1'') = ascii ''1''" "state_file_key (ascii ''%9'') = ascii ''9''"
    by (simp_all add: eval_defs2)
  show ?thesis using enumeration_failure_evicts_all [OF a c] a t k by simp
qed


section \<open>Restoring\<close>

text \<open>
  \<open>load_pane_state\<close> touches nothing but the log.
\<close>

lemma load_pane_state_eq:
  "\<exists>l. load_pane_state p w = (fst (load_pane_state p w), w\<lparr>log := l\<rparr>)"
proof -
  have e: "w = w\<lparr>log := log w\<rparr>" by simp
  show ?thesis
  proof (cases "state_files w (state_file_key p)")
    case None
    then have "snd (load_pane_state p w) = w\<lparr>log := log w\<rparr>"
      by (simp add: load_pane_state_def)
    then show ?thesis by (metis prod.collapse)
  next
    case (Some f)
    have "snd (load_pane_state p w) = w\<lparr>log := log w\<rparr> \<or>
          snd (load_pane_state p w) =
            w\<lparr>log := log w @ [LogError ''Failed to load state for pane'' (Some p)]\<rparr>"
      using Some by (cases "content f") (simp_all add: load_pane_state_def log_error_def)
    then show ?thesis by (metis prod.collapse)
  qed
qed

lemma load_pane_state_log [simp]:
  "fst (load_pane_state p (w\<lparr>log := l\<rparr>)) = fst (load_pane_state p w)"
  by (simp add: load_pane_state_def log_error_def split: option.splits file_content.splits)

lemma stored_record_log [simp]: "stored_record (w\<lparr>log := l\<rparr>) p = stored_record w p"
  by (simp add: stored_record_def)

lemma no_record_log [simp]: "no_record (w\<lparr>log := l\<rparr>) p = no_record w p"
  by (simp add: no_record_def)

lemma no_record_stored: "no_record w p \<Longrightarrow> stored_record w p = None"
  by (auto simp: no_record_def stored_record_def)

lemma rename_window_ok:
  assumes "run_tmux (RenameWindow p n) w = (Some out, w')"
  shows "tmux_only w w' \<and> log w' = log w \<and>
         (\<exists>pn. panes w p = Some pn \<and> panes w' = (panes w)(p \<mapsto> pn\<lparr>window_name := n\<rparr>))"
  using assms
  by (auto simp: run_tmux_def tmux_exec_def tmux_only_def Let_def split: if_splits option.splits)

lemma set_window_auto_rename_names:
  assumes "set_window_auto_rename p b w = (r, w')"
  shows "tmux_only w w' \<and> displayed_name w' = displayed_name w"
proof -
  note f = set_window_auto_rename_frame [OF assms]
  then have "displayed_name w' = displayed_name w"
    by (auto simp: displayed_name_def fun_eq_iff)
  with f show ?thesis by simp
qed

lemma cleanup_pane_state_effect:
  "panes (cleanup_pane_state p w) = panes w \<and>
   tmux_faults (cleanup_pane_state p w) = tmux_faults w \<and>
   fs_readonly (cleanup_pane_state p w) = fs_readonly w \<and>
   tracker_file (cleanup_pane_state p w) = tracker_file w \<and>
   state_files (cleanup_pane_state p w) =
     (if fs_readonly w then state_files w else (state_files w)(state_file_key p := None))"
  by (auto simp: cleanup_pane_state_def log_error_def fun_eq_iff split: option.splits)

lemma cleanup_pane_state_names:
  "displayed_name (cleanup_pane_state p w) = displayed_name w"
  using cleanup_pane_state_effect [of p w] by (simp add: displayed_name_def fun_eq_iff)

text \<open>
  The ways \<open>restore_pane_name\<close> ends: no state, nothing done; an exception, nothing
  done; a record and a failed rename, nothing changed on the panes; a record and the
  rename done, the pane shows the saved name and the state file is cleaned up.
\<close>

lemma restore_pane_name_cases:
  assumes "restore_pane_name p w = (r, w')"
  obtains (absent) l where "no_record w p" "r = Inr False" "w' = w\<lparr>log := l\<rparr>"
  | (raised) e l where "stored_record w p = None" "r = Inl e" "w' = w\<lparr>log := l\<rparr>"
  | (failed) s where "stored_record w p = Some s" "r = Inr False" "tmux_only w w'"
      "panes w' = panes w"
  | (restored) s w3 where "stored_record w p = Some s" "r = Inr True" "tmux_only w w3"
      "displayed_name w3 = (displayed_name w)(p \<mapsto> original_name s)"
      "w' = cleanup_pane_state p w3"
proof -
  obtain l where ld: "load_pane_state p w = (fst (load_pane_state p w), w\<lparr>log := l\<rparr>)"
    using load_pane_state_eq by blast
  let ?w1 = "w\<lparr>log := l\<rparr>"
  show ?thesis
  proof (cases "fst (load_pane_state p w)")
    case (Inl e)
    then have ld': "load_pane_state p w = (Inl e, ?w1)" using ld by simp
    have "r = Inl e" "w' = ?w1"
      using assms by (simp_all add: restore_pane_name_def ld')
    moreover have "stored_record w p = None" using Inl by (simp add: stored_record_def)
    ultimately show ?thesis by (intro raised) simp_all
  next
    case (Inr state)
    then have ld': "load_pane_state p w = (Inr state, ?w1)" using ld by simp
    show ?thesis
    proof (cases state)
      case None
      then have "r = Inr False"
          "w' = w\<lparr>log := l @ [LogWarning ''No state found for pane'' (Some p)]\<rparr>"
        using assms by (simp_all add: restore_pane_name_def ld' log_warning_def)
      moreover have "no_record w p" using Inr None by (simp add: no_record_def)
      ultimately show ?thesis by (intro absent) simp_all
    next
      case (Some v)
      show ?thesis
      proof (cases v)
        case FalsyJson
        then have "r = Inr False"
            "w' = w\<lparr>log := l @ [LogWarning ''No state found for pane'' (Some p)]\<rparr>"
          using assms Some by (simp_all add: restore_pane_name_def ld' log_warning_def)
        moreover have "no_record w p" using Inr Some FalsyJson by (simp add: no_record_def)
        ultimately show ?thesis by (intro absent) simp_all
      next
        case NonObject
        then have "r = Inl TypeError" "w' = ?w1"
          using assms Some by (simp_all add: restore_pane_name_def ld')
        moreover have "stored_record w p = None"
          using Inr Some NonObject by (simp add: stored_record_def)
        ultimately show ?thesis by (intro raised) simp_all
      next
        case ObjectWithoutName
        then have "r = Inl KeyError" "w' = ?w1"
          using assms Some by (simp_all add: restore_pane_name_def ld')
        moreover have "stored_record w p = None"
          using Inr Some ObjectWithoutName by (simp add: stored_record_def)
        ultimately show ?thesis by (intro raised) simp_all
      next
        case (Record s)
        have sr: "stored_record w p = Some s"
          using Inr Some Record by (simp add: stored_record_def)
        have ld'': "load_pane_state p w = (Inr (Some (Record s)), ?w1)"
          using ld' Some Record by simp
        obtain o2 w2 where rn: "run_tmux (RenameWindow p (original_name s)) ?w1 = (o2, w2)"
          by (cases "run_tmux (RenameWindow p (original_name s)) ?w1")
        show ?thesis
        proof (cases o2)
          case None
          then have res: "r = Inr False"
              "w' = log_error ''Failed to restore pane name'' (Some p) w2"
            using assms ld'' rn by (simp_all add: restore_pane_name_def Let_def)
          have "tmux_only ?w1 w2 \<and> panes w2 = panes ?w1"
            using rn None run_tmux_None_panes by blast
          then have "tmux_only w w'" "panes w' = panes w"
            using res by (simp_all add: tmux_only_def log_error_def)
          then show ?thesis using sr res by (intro failed) simp_all
        next
          case out: (Some out)
          let ?b = "case auto_rename_was_on s of None \<Rightarrow> True | Some b \<Rightarrow> b"
          obtain r3 w3 where sa: "set_window_auto_rename p ?b w2 = (r3, w3)"
            by (cases "set_window_auto_rename p ?b w2")
          have res: "r = Inr True" "w' = cleanup_pane_state p w3"
            using assms ld'' rn out sa by (simp_all add: restore_pane_name_def Let_def)
          note a = rename_window_ok [OF rn [unfolded out]]
          note b = set_window_auto_rename_names [OF sa]
          have "displayed_name w2 = (displayed_name w)(p \<mapsto> original_name s)"
            using a by (auto simp: displayed_name_def fun_eq_iff)
          then have "displayed_name w3 = (displayed_name w)(p \<mapsto> original_name s)"
            using b by simp
          moreover have "tmux_only w w3" using a b by (simp add: tmux_only_def)
          ultimately show ?thesis using sr res by (intro restored) simp_all
        qed
      qed
    qed
  qed
qed

lemma restore_without_record:
  assumes "no_record w p" and "restore_pane_name p w = (r, w')"
  shows "r = Inr False \<and> (\<exists>l. w' = w\<lparr>log := l\<rparr>)"
proof -
  obtain l where ld: "load_pane_state p w = (fst (load_pane_state p w), w\<lparr>log := l\<rparr>)"
    using load_pane_state_eq by blast
  from assms(1) have "fst (load_pane_state p w) = Inr None \<or>
      fst (load_pane_state p w) = Inr (Some FalsyJson)"
    by (simp add: no_record_def)
  then have "load_pane_state p w = (Inr None, w\<lparr>log := l\<rparr>) \<or>
      load_pane_state p w = (Inr (Some FalsyJson), w\<lparr>log := l\<rparr>)"
    using ld by auto
  then have "restore_pane_name p w =
      (Inr False, w\<lparr>log := l @ [LogWarning ''No state found for pane'' (Some p)]\<rparr>)"
    by (auto simp: restore_pane_name_def log_warning_def)
  then show ?thesis using assms(2) by auto
qed

text \<open>
  C3. Two calls of \<open>restore_pane_name\<close> for a pane, one after the other.
  \<^item> A first call that restores, in a directory that accepts changes, finds a
    record and leaves none: the state file is deleted by the first call.
  \<^item> When the second call finds no record it returns \<open>False\<close> without raising, and
    issues no tmux command and changes no file: panes, faults still to come, state
    files and tracker file are what the first call left. The record is deleted once,
    not twice.
  \<^item> When the first call restored, had nothing to restore, or was left by an
    exception, the pane shows the same name after the second call as after the first.
\<close>

theorem restore_pane_name_idempotent:
  assumes first: "restore_pane_name p w = (r1, w1)"
      and second: "restore_pane_name p w1 = (r2, w2)"
  shows "(r1 = Inr True \<and> \<not> fs_readonly w \<longrightarrow>
            stored_record w p \<noteq> None \<and> state_files w1 (state_file_key p) = None) \<and>
         (no_record w1 p \<longrightarrow>
            r2 = Inr False \<and> panes w2 = panes w1 \<and> tmux_faults w2 = tmux_faults w1 \<and>
            state_files w2 = state_files w1 \<and> tracker_file w2 = tracker_file w1) \<and>
         (r1 = Inr True \<or> no_record w p \<or> (\<exists>e. r1 = Inl e) \<longrightarrow>
            displayed_name w2 p = displayed_name w1 p)"
proof (intro conjI impI)
  assume a: "r1 = Inr True \<and> \<not> fs_readonly w"
  from first show "stored_record w p \<noteq> None"
    by (cases rule: restore_pane_name_cases) (use a in auto)
  from first show "state_files w1 (state_file_key p) = None"
  proof (cases rule: restore_pane_name_cases)
    case (restored s w3)
    then show ?thesis using a cleanup_pane_state_effect [of p w3]
      by (simp add: tmux_only_def)
  qed (use a in auto)
next
  assume n: "no_record w1 p"
  from restore_without_record [OF n second]
  obtain l where "r2 = Inr False" "w2 = w1\<lparr>log := l\<rparr>" by blast
  then show "r2 = Inr False" "panes w2 = panes w1" "tmux_faults w2 = tmux_faults w1"
    "state_files w2 = state_files w1" "tracker_file w2 = tracker_file w1"
    by simp_all
next
  assume c: "r1 = Inr True \<or> no_record w p \<or> (\<exists>e. r1 = Inl e)"
  have d1: "stored_record w1 p = None \<or>
            displayed_name w1 p = map_option original_name (stored_record w1 p)"
    using first
  proof (cases rule: restore_pane_name_cases)
    case (absent l)
    then show ?thesis using no_record_stored by simp
  next
    case (raised e l)
    then show ?thesis by simp
  next
    case (failed s)
    then show ?thesis using c no_record_stored [of w p] by auto
  next
    case (restored s w3)
    have "displayed_name w1 p = Some (original_name s)"
      using restored by (simp add: cleanup_pane_state_names)
    moreover have "stored_record w1 p = None \<or> stored_record w1 p = Some s"
      using restored cleanup_pane_state_effect [of p w3]
      by (auto simp: stored_record_def load_pane_state_def tmux_only_def log_error_def
            split: option.splits file_content.splits if_splits json_value.splits)
    ultimately show ?thesis by auto
  qed
  from second show "displayed_name w2 p = displayed_name w1 p"
  proof (cases rule: restore_pane_name_cases)
    case (absent l)
    then show ?thesis by (simp add: displayed_name_def)
  next
    case (raised e l)
    then show ?thesis by (simp add: displayed_name_def)
  next
    case (failed s)
    then show ?thesis by (simp add: displayed_name_def)
  next
    case (restored s w3)
    then show ?thesis using d1 by (auto simp: cleanup_pane_state_names)
  qed
qed

text \<open>Restoring twice the pane that shows the stop overlay over \<open>build\<close>.\<close>

theorem restore_pane_name_idempotent_witness:
  "fst (restore_pane_name pane1 (overlaid_world [])) = Inr True \<and>
   \<not> fs_readonly (overlaid_world []) \<and>
   stored_record (overlaid_world []) pane1 \<noteq> None \<and>
   no_record (snd (restore_pane_name pane1 (overlaid_world []))) pane1 \<and>
   state_files (snd (restore_pane_name pane1 (overlaid_world []))) (state_file_key pane1) = None \<and>
   fst (restore_pane_name pane1 (snd (restore_pane_name pane1 (overlaid_world [])))) = Inr False \<and>
   displayed_name (snd (restore_pane_name pane1 (overlaid_world []))) pane1
     = Some (ascii ''build'') \<and>
   displayed_name
     (snd (restore_pane_name pane1 (snd (restore_pane_name pane1 (overlaid_world []))))) pane1
     = Some (ascii ''build'')"
proof -
  let ?w = "overlaid_world []"
  let ?w1 = "snd (restore_pane_name pane1 ?w)"
  let ?w2 = "snd (restore_pane_name pane1 ?w1)"
  have r1: "fst (restore_pane_name pane1 ?w) = Inr True"
    and ro: "\<not> fs_readonly ?w"
    and n1: "displayed_name ?w1 pane1 = Some (ascii ''build'')"
    and s1: "no_record ?w1 pane1"
    by (simp_all add: overlaid_world_def eval_defs)
  have first: "restore_pane_name pane1 ?w = (Inr True, ?w1)"
    using r1 by (simp add: prod_eq_iff)
  have second: "restore_pane_name pane1 ?w1 = (fst (restore_pane_name pane1 ?w1), ?w2)"
    by simp
  show ?thesis
    using restore_pane_name_idempotent [OF first second] r1 ro n1 s1 by simp
qed

section \<open>One overlay after another\<close>

text \<open>
  With no fault injected, each tmux call of the hooks does what tmux does for a pane
  that exists.
\<close>

lemma run_tmux_no_faults:
  assumes "tmux_faults w = []"
  shows "run_tmux cmd w =
           (case tmux_exec cmd w of None \<Rightarrow> (None, w) | Some (out, w2) \<Rightarrow> (Some out, w2))"
proof -
  have e: "w\<lparr>tmux_faults := tl (tmux_faults w)\<rparr> = w" using assms by simp
  have f: "(case tmux_faults w of [] \<Rightarrow> False | f # _ \<Rightarrow> f) = False" using assms by simp
  show ?thesis unfolding run_tmux_def Let_def e f by simp
qed

lemma get_pane_name_ok:
  assumes "tmux_faults w = []" and "panes w p = Some pn"
  shows "get_pane_name p w = (Some (py_strip (window_name pn)), w)"
  using assms
  by (simp add: get_pane_name_def run_tmux_no_faults tmux_exec_def py_strip_newline)

lemma pane_updated:
  "(pn :: pane)\<lparr>automatic_rename := b, window_name := n\<rparr>
     = \<lparr>window_name = n, automatic_rename = b\<rparr>"
  by (cases pn) simp

lemma set_pane_name_ok:
  assumes "tmux_faults w = []" and "panes w p = Some pn"
  shows "set_pane_name p n w =
           (True, w\<lparr>panes := (panes w)(p \<mapsto> \<lparr>window_name = n, automatic_rename = False\<rparr>)\<rparr>)"
  using assms
  by (simp add: set_pane_name_def set_window_auto_rename_def run_tmux_no_faults tmux_exec_def
        pane_updated)

lemma show_options_parsed:
  "py_in (ascii ''on'')
     (py_strip (ascii ''automatic-rename '' @ (if b then ascii ''on'' else ascii ''off'') @ [10]))
   = b"
  by (cases b) (simp_all add: ascii_def py_strip_def py_isspace_def)

lemma get_window_auto_rename_status_ok:
  assumes "tmux_faults w = []" and "panes w p = Some pn"
  shows "get_window_auto_rename_status p w = (automatic_rename pn, w)"
  using assms
  by (simp add: get_window_auto_rename_status_def run_tmux_no_faults tmux_exec_def
        show_options_parsed)

lemma save_pane_state_ok:
  assumes "tmux_faults w = []" and "panes w p = Some pn" and "\<not> state_write_fails p w"
  shows "save_pane_state p orig st w =
           w\<lparr>state_files := (state_files w)(state_file_key p \<mapsto>
               \<lparr>content = Decoded (Record \<lparr>pane_id = p, original_name = orig, status = st,
                    timestamp = clock w, auto_rename_was_on = Some (automatic_rename pn)\<rparr>),
                mtime = clock w, write_protected = False\<rparr>)\<rparr>"
  using assms
  by (simp add: save_pane_state_def get_window_auto_rename_status_ok Let_def)

lemma get_current_tmux_session_ok:
  assumes "tmux_faults w = []"
  shows "\<exists>l. snd (get_current_tmux_session w) = w\<lparr>log := l\<rparr>"
proof (cases "current_session w")
  case None
  then have "snd (get_current_tmux_session w) =
      w\<lparr>log := log w @ [LogError ''Failed to get current session'' None]\<rparr>"
    using assms
    by (simp add: get_current_tmux_session_def run_tmux_no_faults tmux_exec_def log_error_def)
  then show ?thesis by blast
next
  case (Some s)
  then have "snd (get_current_tmux_session w) = w\<lparr>log := log w\<rparr>"
    using assms
    by (simp add: get_current_tmux_session_def run_tmux_no_faults tmux_exec_def)
  then show ?thesis by blast
qed

lemma get_claude_pane_id_env:
  assumes "env_TMUX_PANE w = Some p" and "p \<noteq> []"
  shows "get_claude_pane_id w = (Some p, w)"
  using assms by (cases p) (simp_all add: get_claude_pane_id_def)

lemma stored_record_written:
  assumes "state_files w (state_file_key p) =
             Some \<lparr>content = Decoded (Record s), mtime = m, write_protected = b\<rparr>"
  shows "stored_record w p = Some s"
  using assms by (simp add: stored_record_def load_pane_state_def)

lemma state_write_fails_frame:
  "state_write_fails p (w\<lparr>log := l\<rparr>) = state_write_fails p w"
  "state_write_fails p (w\<lparr>panes := ps\<rparr>) = state_write_fails p w"
  by (simp_all add: state_write_fails_def)

text \<open>
  A hook in a pane that exists, with a name that is not blank, no fault injected and a
  state file that can be written: the hook completes, the window shows the emoji, a
  space and the name to remember, and the record holds that name.
\<close>

lemma handle_hook_clean_run:
  assumes env: "env_TMUX_PANE w = Some p" "p \<noteq> []"
      and pane: "panes w p = Some pn" "py_strip (window_name pn) \<noteq> []"
      and ok: "tmux_faults w = []" "\<not> state_write_fails p w"
      and nm: "fst (load_pane_state p w) = Inr state"
              "name_to_remember state (py_strip (window_name pn)) = Inr orig"
      and hh: "handle_hook emoji st w = (r, w')"
  shows "r = HookCompleted \<and>
         env_TMUX_PANE w' = env_TMUX_PANE w \<and> tmux_faults w' = [] \<and>
         \<not> state_write_fails p w' \<and>
         panes w' = (panes w)(p \<mapsto> \<lparr>window_name = emoji @ 32 # orig, automatic_rename = False\<rparr>) \<and>
         stored_record w' p =
           Some \<lparr>pane_id = p, original_name = orig, status = st, timestamp = clock w,
                 auto_rename_was_on = Some False\<rparr>"
proof -
  obtain l where ld0: "load_pane_state p w = (fst (load_pane_state p w), w\<lparr>log := l\<rparr>)"
    using load_pane_state_eq by blast
  have ld: "load_pane_state p w = (Inr state, w\<lparr>log := l\<rparr>)"
    using ld0 nm(1) by simp
  let ?w3 = "w\<lparr>log := l\<rparr>"
  let ?new = "emoji @ 32 # orig"
  let ?w4 = "w\<lparr>log := l,
                panes := (panes w)(p \<mapsto> \<lparr>window_name = ?new, automatic_rename = False\<rparr>)\<rparr>"
  let ?rec = "\<lparr>pane_id = p, original_name = orig, status = st, timestamp = clock w,
                 auto_rename_was_on = Some False\<rparr>"
  let ?w5 = "w\<lparr>log := l,
                panes := (panes w)(p \<mapsto> \<lparr>window_name = ?new, automatic_rename = False\<rparr>),
                state_files := (state_files w)(state_file_key p \<mapsto>
                  \<lparr>content = Decoded (Record ?rec), mtime = clock w, write_protected = False\<rparr>)\<rparr>"
  have sp: "set_pane_name p ?new ?w3 = (True, ?w4)"
    using set_pane_name_ok [of ?w3 p pn ?new] ok pane by simp
  have wf4: "\<not> state_write_fails p ?w4"
    using ok(2) by (simp add: state_write_fails_def)
  have sv: "save_pane_state p orig st ?w4 = ?w5"
    using save_pane_state_ok [of ?w4 p "\<lparr>window_name = ?new, automatic_rename = False\<rparr>" orig st]
      ok(1) wf4 by simp
  obtain l2 where se: "snd (get_current_tmux_session ?w5) = ?w5\<lparr>log := l2\<rparr>"
    using get_current_tmux_session_ok [of ?w5] ok by auto
  obtain c cs where cur: "py_strip (window_name pn) = c # cs"
    using pane(2) by (cases "py_strip (window_name pn)") auto
  have o: "name_to_remember state (c # cs) = Inr orig"
    using nm(2) cur by simp
  have gn: "get_pane_name p w = (Some (c # cs), w)"
    using get_pane_name_ok [OF ok(1) pane(1)] cur by simp
  have "handle_hook emoji st w = (HookCompleted, snd (get_current_tmux_session ?w5))"
    unfolding handle_hook_def
    by (simp add: get_claude_pane_id_env [OF env] gn ld o sp sv Let_def case_prod_unfold)
  then have "handle_hook emoji st w = (HookCompleted, ?w5\<lparr>log := l2\<rparr>)"
    using se by simp
  then have r: "r = HookCompleted" and w': "w' = ?w5\<lparr>log := l2\<rparr>"
    using hh by simp_all
  have "stored_record w' p = Some ?rec"
    by (rule stored_record_written [where m = "clock w" and b = False]) (simp add: w')
  moreover have "\<not> state_write_fails p w'"
    using ok(2) by (simp add: w' state_write_fails_def)
  ultimately show ?thesis using r ok by (simp add: w')
qed

lemma strip_emoji_prefix_none:
  "\<not> list_ex (\<lambda>emoji. prefix (emoji @ [32]) name) es \<Longrightarrow> strip_emoji_prefix es name = name"
  by (induction es) simp_all

lemma name_to_remember_no_record:
  assumes "no_record w p"
  shows "\<exists>state. fst (load_pane_state p w) = Inr state \<and>
           name_to_remember state n = Inr (strip_emoji_prefix known_emoji n)"
  using assms by (auto simp: no_record_def name_to_remember_def)

lemma name_to_remember_record:
  assumes "stored_record w p = Some s"
  shows "fst (load_pane_state p w) = Inr (Some (Record s)) \<and>
         name_to_remember (Some (Record s)) n = Inr (original_name s)"
  using assms
  by (auto simp: stored_record_def name_to_remember_def
        split: sum.splits option.splits json_value.splits)

text \<open>
  C2, as amended. In a pane without a record, whose window name is not blank, with no
  tmux failure and a directory that accepts changes, the stop hook followed by the
  notification hook leaves the window showing the notification emoji, a space and the
  remembered name, and the record holds the remembered name with the status
  \<open>notification\<close>. The remembered name is the window name before either call as
  \<open>get_pane_name\<close> reads it (whitespace trimmed) with at most one known emoji prefix cut
  off. For a starting name without surrounding whitespace and without an emoji prefix
  the remembered name is the starting name itself and carries no marker, so the
  displayed name has exactly one marker.
\<close>

theorem stop_then_notification:
  assumes env: "env_TMUX_PANE w = Some p" "p \<noteq> []"
      and pane: "panes w p = Some pn" "py_strip (window_name pn) \<noteq> []"
      and clean: "no_record w p"
      and ok: "tmux_faults w = []" "\<not> state_write_fails p w"
      and stop: "handle_stop_hook w = (r1, w1)"
      and notif: "handle_notification_hook w1 = (r2, w2)"
  defines "true_name \<equiv> strip_emoji_prefix known_emoji (py_strip (window_name pn))"
  shows "r1 = HookCompleted \<and> r2 = HookCompleted \<and>
         displayed_name w1 p = Some (emoji_stop @ 32 # true_name) \<and>
         displayed_name w2 p = Some (emoji_notification @ 32 # true_name) \<and>
         map_option original_name (stored_record w2 p) = Some true_name \<and>
         map_option status (stored_record w2 p) = Some ''notification'' \<and>
         (py_strip (window_name pn) = window_name pn \<and> \<not> has_marker (window_name pn) \<longrightarrow>
            true_name = window_name pn \<and> \<not> has_marker true_name)"
proof -
  obtain state where t: "fst (load_pane_state p w) = Inr state"
      "name_to_remember state (py_strip (window_name pn)) = Inr true_name"
    using name_to_remember_no_record [OF clean, of "py_strip (window_name pn)"]
    unfolding true_name_def by blast
  note one = handle_hook_clean_run [OF env pane ok t stop [unfolded handle_stop_hook_def]]
  let ?pn1 = "\<lparr>window_name = emoji_stop @ 32 # true_name, automatic_rename = False\<rparr>"
  let ?rec1 = "\<lparr>pane_id = p, original_name = true_name, status = ''stop'',
                 timestamp = clock w, auto_rename_was_on = Some False\<rparr>"
  have env1: "env_TMUX_PANE w1 = Some p" using one env by simp
  have pane1: "panes w1 p = Some ?pn1" using one by simp
  have ne1: "py_strip (window_name ?pn1) \<noteq> []"
    using py_strip_nonspace [of 9989 "32 # true_name"]
    by (simp add: emoji_stop_def py_isspace_def)
  have ok1: "tmux_faults w1 = []" "\<not> state_write_fails p w1" using one by simp_all
  have rec1: "stored_record w1 p = Some ?rec1" using one by simp
  note t1 = name_to_remember_record [OF rec1, of "py_strip (window_name ?pn1)"]
  have nm1: "fst (load_pane_state p w1) = Inr (Some (Record ?rec1))"
      "name_to_remember (Some (Record ?rec1)) (py_strip (window_name ?pn1)) = Inr true_name"
    using t1 by simp_all
  note two = handle_hook_clean_run [OF env1 env(2) pane1 ne1 ok1 nm1
      notif [unfolded handle_notification_hook_def]]
  have last: "true_name = window_name pn \<and> \<not> has_marker true_name"
    if "py_strip (window_name pn) = window_name pn \<and> \<not> has_marker (window_name pn)"
    using that strip_emoji_prefix_none [of "window_name pn" known_emoji]
    by (simp add: true_name_def has_marker_def)
  show ?thesis using one two last by (simp add: displayed_name_def)
qed

text \<open>The pane named \<open>build\<close>.\<close>

theorem stop_then_notification_witness:
  "displayed_name
     (snd (handle_notification_hook
        (snd (handle_stop_hook (one_pane_world (ascii ''build'') True []))))) pane1
     = Some (emoji_notification @ 32 # ascii ''build'') \<and>
   map_option original_name
     (stored_record
        (snd (handle_notification_hook
           (snd (handle_stop_hook (one_pane_world (ascii ''build'') True []))))) pane1)
     = Some (ascii ''build'') \<and>
   \<not> has_marker (ascii ''build'')"
proof -
  let ?w = "one_pane_world (ascii ''build'') True []"
  let ?pn = "\<lparr>window_name = ascii ''build'', automatic_rename = True\<rparr>"
  have env: "env_TMUX_PANE ?w = Some pane1" "pane1 \<noteq> []"
    and pane: "panes ?w pane1 = Some ?pn" "py_strip (window_name ?pn) \<noteq> []"
    and clean: "no_record ?w pane1"
    and ok: "tmux_faults ?w = []" "\<not> state_write_fails pane1 ?w"
    and plain: "py_strip (window_name ?pn) = window_name ?pn \<and> \<not> has_marker (window_name ?pn)"
    by (simp_all add: eval_defs)
  have stop: "handle_stop_hook ?w = (fst (handle_stop_hook ?w), snd (handle_stop_hook ?w))"
    by simp
  have notif: "handle_notification_hook (snd (handle_stop_hook ?w)) =
      (fst (handle_notification_hook (snd (handle_stop_hook ?w))),
       snd (handle_notification_hook (snd (handle_stop_hook ?w))))"
    by simp
  have tn: "strip_emoji_prefix known_emoji (ascii ''build'') = ascii ''build''"
    by (simp add: eval_defs)
  show ?thesis
    using stop_then_notification [OF env pane clean ok stop notif] plain by (simp add: tn)
qed

text \<open>
  C2 as stated fails for a starting name that has an emoji prefix of its own or
  surrounding whitespace. Starting from the name made of the stop emoji twice before
  \<open>build\<close>, the two hooks leave the notification emoji followed by the stop emoji (a
  marker after the marker) and remember a name that is not the starting name. Starting
  from \<open>build\<close> with a leading space, they remember \<open>build\<close> without it.
\<close>

theorem stop_then_notification_counterexample:
  "displayed_name
     (snd (handle_notification_hook (snd (handle_stop_hook
        (one_pane_world (emoji_stop @ 32 # emoji_stop @ 32 # ascii ''build'') False []))))) pane1
     = Some (emoji_notification @ 32 # emoji_stop @ 32 # ascii ''build'') \<and>
   has_marker (emoji_stop @ 32 # ascii ''build'') \<and>
   map_option original_name
     (stored_record
        (snd (handle_notification_hook (snd (handle_stop_hook
           (one_pane_world (emoji_stop @ 32 # emoji_stop @ 32 # ascii ''build'') False [])))))
        pane1)
     = Some (emoji_stop @ 32 # ascii ''build'') \<and>
   emoji_stop @ 32 # ascii ''build'' \<noteq> emoji_stop @ 32 # emoji_stop @ 32 # ascii ''build'' \<and>
   map_option original_name
     (stored_record
        (snd (handle_notification_hook (snd (handle_stop_hook
           (one_pane_world (32 # ascii ''build'') False [])))))
        pane1)
     = Some (ascii ''build'') \<and>
   ascii ''build'' \<noteq> 32 # ascii ''build''"
  by (simp add: eval_defs)


section \<open>State files that do not load\<close>

text \<open>
  The two failures \<open>load_pane_state\<close> catches: the caller gets \<open>None\<close> and the
  failure is logged.
\<close>

lemma load_pane_state_caught:
  assumes "state_files w (state_file_key p) = Some f"
      and "content f = Garbage \<or> content f = Unreadable"
  shows "load_pane_state p w =
           (Inr None, log_error ''Failed to load state for pane'' (Some p) w)"
  using assms by (auto simp: load_pane_state_def)

text \<open>
  An unreadable state file that is write-protected too: the stop hook completes and
  shows the overlay, and no record is saved for it.
\<close>

lemma protected_record_not_saved:
  "fst (handle_stop_hook
      ((one_pane_world (ascii ''build'') True [])
         \<lparr>state_files :=
            [ascii ''1'' \<mapsto> \<lparr>content = Unreadable, mtime = 900, write_protected = True\<rparr>]\<rparr>))
     = HookCompleted \<and>
   stored_record (snd (handle_stop_hook
      ((one_pane_world (ascii ''build'') True [])
         \<lparr>state_files :=
            [ascii ''1'' \<mapsto> \<lparr>content = Unreadable, mtime = 900, write_protected = True\<rparr>]\<rparr>)))
      pane1 = None \<and>
   stored_record (snd (handle_stop_hook (one_pane_world (ascii ''build'') True []))) pane1 \<noteq> None"
  by (simp add: eval_defs)

text \<open>
  C9. The claim is that a state file that fails to parse is absent to the caller of
  \<open>load_pane_state\<close> and never a fatal error. The function catches
  \<open>JSONDecodeError\<close> and \<open>IOError\<close> only. In the pane \<open>%1\<close> with a state file whose
  bytes are not UTF-8, \<open>load_pane_state\<close> is left by \<open>UnicodeDecodeError\<close>, and so
  are the stop hook, the notification hook, \<open>restore_pane_name\<close> and
  \<open>clear_emoji_on_enter\<close>; the stop hook shows no overlay, where without the file it
  completes and shows it.
\<close>

theorem not_utf8_record_raises:
  "state_files not_utf8_world (state_file_key pane1)
     = Some \<lparr>content = NotUTF8, mtime = 900, write_protected = False\<rparr> \<and>
   fst (load_pane_state pane1 not_utf8_world) = Inl UnicodeDecodeError \<and>
   fst (handle_stop_hook not_utf8_world) = Raised UnicodeDecodeError \<and>
   displayed_name (snd (handle_stop_hook not_utf8_world)) pane1 = Some (ascii ''build'') \<and>
   fst (handle_notification_hook not_utf8_world) = Raised UnicodeDecodeError \<and>
   fst (restore_pane_name pane1 not_utf8_world) = Inl UnicodeDecodeError \<and>
   fst (clear_emoji_on_enter not_utf8_world) = Some UnicodeDecodeError \<and>
   not_utf8_world\<lparr>state_files := (state_files not_utf8_world)(state_file_key pane1 := None)\<rparr>
     = one_pane_world (ascii ''build'') True [] \<and>
   fst (handle_stop_hook (one_pane_world (ascii ''build'') True [])) = HookCompleted \<and>
   displayed_name (snd (handle_stop_hook (one_pane_world (ascii ''build'') True []))) pane1
     = Some (emoji_stop @ 32 # ascii ''build'')"
  by (simp add: not_utf8_world_def clear_emoji_on_enter_def eval_defs)

end
